theory Spec2Isabelle
  imports Main "HOL-Library.AList" "HOL-Library.Sublist"
begin

section \<open>Python values\<close>

text \<open>
  The SDK (\<^verbatim>\<open>src/glpi/glpi.py\<close>, Python 2) is dynamically typed. Values that
  travel through it (header values, query parameters, request bodies, parsed
  JSON responses, the session token) are modelled by one datatype. A \<^verbatim>\<open>dict\<close>
  is an association list holding its items in iteration order; its keys are
  strings, and a lookup finds the first item of a key. Strings are byte
  strings (ASCII); floats are not modelled.
\<close>

datatype pyval =
    PNone
  | PBool bool
  | PInt int
  | PStr string
  | PList "pyval list"
  | PDict "(string \<times> pyval) list"

text \<open>
  Every \<^verbatim>\<open>raise\<close> of the source and every built-in exception its expressions
  can raise is a value; \<^verbatim>\<open>TransportError\<close> stands for what the HTTP library
  raises on its own. The two wrappers built with
  \<^verbatim>\<open>Exception("... %s" % e)\<close> (lines 170 and 256) keep the cause \<^verbatim>\<open>e\<close>
  instead of its text.
\<close>

datatype py_exception =
    KeyError pyval
  | TypeError
  | AttributeError
  | ValueError
  | IndexError
  | TransportError string
  | GlpiException string
  | GlpiInvalidArgument string
  | UnableToInitSession py_exception
  | UnableToGetSessionToken py_exception

text \<open>Truth value of an object, as \<^verbatim>\<open>if x\<close> and \<^verbatim>\<open>not x\<close> test it.\<close>

fun truthy :: "pyval \<Rightarrow> bool" where
  "truthy PNone = False"
| "truthy (PBool b) = b"
| "truthy (PInt n) = (n \<noteq> 0)"
| "truthy (PStr s) = (s \<noteq> [])"
| "truthy (PList xs) = (xs \<noteq> [])"
| "truthy (PDict kvs) = (kvs \<noteq> [])"

text \<open>\<^verbatim>\<open>a in b\<close> on strings: \<^verbatim>\<open>a\<close> occurs in \<^verbatim>\<open>b\<close> as a contiguous block.\<close>

fun is_substring :: "string \<Rightarrow> string \<Rightarrow> bool" where
  "is_substring xs [] = (xs = [])"
| "is_substring xs (y # ys) = (prefix xs (y # ys) \<or> is_substring xs ys)"

text \<open>\<^verbatim>\<open>k in v\<close> for a string \<^verbatim>\<open>k\<close>: key of a dict, element of a list, substring
  of a string; any other right operand is not iterable.\<close>

fun py_in :: "string \<Rightarrow> pyval \<Rightarrow> py_exception + bool" where
  "py_in k (PDict kvs) = Inr (k \<in> set (map fst kvs))"
| "py_in k (PList xs) = Inr (PStr k \<in> set xs)"
| "py_in k (PStr s) = Inr (is_substring k s)"
| "py_in k _ = Inl TypeError"

text \<open>
  \<^verbatim>\<open>xs[i]\<close> on a sequence: a negative index counts from the end, an index out
  of range raises.
\<close>

definition seq_index :: "'a list \<Rightarrow> int \<Rightarrow> py_exception + 'a" where
  "seq_index xs i =
     (if 0 \<le> i \<and> i < int (length xs) then Inr (xs ! nat i)
      else if i < 0 \<and> - int (length xs) \<le> i then Inr (xs ! nat (int (length xs) + i))
      else Inl IndexError)"

text \<open>
  \<^verbatim>\<open>v[k]\<close>. A dict (its keys are strings) is looked up; a list or string is
  indexed by an integer (a bool is an integer); nothing else can be subscripted.
\<close>

fun py_getitem :: "pyval \<Rightarrow> pyval \<Rightarrow> py_exception + pyval" where
  "py_getitem (PDict kvs) (PStr k) =
     (case map_of kvs k of None \<Rightarrow> Inl (KeyError (PStr k)) | Some v \<Rightarrow> Inr v)"
| "py_getitem (PDict kvs) (PList ks) = Inl TypeError"
| "py_getitem (PDict kvs) (PDict ks) = Inl TypeError"
| "py_getitem (PDict kvs) k = Inl (KeyError k)"
| "py_getitem (PList xs) (PInt i) = seq_index xs i"
| "py_getitem (PList xs) (PBool b) = seq_index xs (if b then 1 else 0)"
| "py_getitem (PStr s) (PInt i) = map_sum id (\<lambda>c. PStr [c]) (seq_index s i)"
| "py_getitem (PStr s) (PBool b) = map_sum id (\<lambda>c. PStr [c]) (seq_index s (if b then 1 else 0))"
| "py_getitem _ k = Inl TypeError"

text \<open>\<^verbatim>\<open>for x in v\<close>: the elements of a list, the keys of a dict, the characters
  of a string.\<close>

fun py_iter :: "pyval \<Rightarrow> py_exception + pyval list" where
  "py_iter (PList xs) = Inr xs"
| "py_iter (PDict kvs) = Inr (map (\<lambda>(k, v). PStr k) kvs)"
| "py_iter (PStr s) = Inr (map (\<lambda>c. PStr [c]) s)"
| "py_iter _ = Inl TypeError"

text \<open>\<^verbatim>\<open>s.lower()\<close> on ASCII: only the letters A to Z change. Letters outside
  ASCII, which \<^verbatim>\<open>unicode.lower\<close> would also change, are left as they are.\<close>

definition lower_char :: "char \<Rightarrow> char" where
  "lower_char c =
     (case map_of (zip ''ABCDEFGHIJKLMNOPQRSTUVWXYZ'' ''abcdefghijklmnopqrstuvwxyz'') c of
        None \<Rightarrow> c
      | Some d \<Rightarrow> d)"

definition lower :: "string \<Rightarrow> string" where
  "lower s = map lower_char s"

text \<open>\<^verbatim>\<open>v.lower()\<close> exists on strings only.\<close>

fun py_lower :: "pyval \<Rightarrow> py_exception + string" where
  "py_lower (PStr s) = Inr (lower s)"
| "py_lower _ = Inl AttributeError"

text \<open>\<^verbatim>\<open>'literal' + v\<close>: only a string can be appended to a string.\<close>

fun str_add :: "string \<Rightarrow> pyval \<Rightarrow> py_exception + string" where
  "str_add s (PStr t) = Inr (s @ t)"
| "str_add s _ = Inl TypeError"

text \<open>\<^verbatim>\<open>v + 'literal'\<close>.\<close>

fun add_str :: "pyval \<Rightarrow> string \<Rightarrow> py_exception + string" where
  "add_str (PStr s) t = Inr (s @ t)"
| "add_str _ t = Inl TypeError"

text \<open>\<^verbatim>\<open>str(n)\<close> of an integer: its decimal digits.\<close>

fun str_nat :: "nat \<Rightarrow> string" where
  "str_nat n =
     (if n < 10 then [''0123456789'' ! n]
      else str_nat (n div 10) @ [''0123456789'' ! (n mod 10)])"

definition str_int :: "int \<Rightarrow> string" where
  "str_int i = (if i < 0 then ''-'' @ str_nat (nat (- i)) else str_nat (nat i))"

section \<open>Module-level helpers\<close>

text \<open>\<^verbatim>\<open>_remove_null_values\<close> (lines 36-39).\<close>

definition remove_null_items :: "(string \<times> pyval) list \<Rightarrow> (string \<times> pyval) list" where
  "remove_null_items kvs = filter (\<lambda>(k, v). v \<noteq> PNone) kvs"

fun remove_null_values :: "pyval \<Rightarrow> pyval" where
  "remove_null_values (PDict kvs) = PDict (remove_null_items kvs)"
| "remove_null_values v = v"

text \<open>\<^verbatim>\<open>_cleanup_param_value\<close> (lines 42-45).\<close>

fun cleanup_param_value :: "pyval \<Rightarrow> pyval" where
  "cleanup_param_value (PBool b) = PStr (if b then ''true'' else ''false'')"
| "cleanup_param_value v = v"

text \<open>\<^verbatim>\<open>_cleanup_param_values\<close> (lines 48-52).\<close>

fun cleanup_param_values :: "pyval \<Rightarrow> pyval" where
  "cleanup_param_values (PDict kvs) = PDict (map (\<lambda>(k, v). (k, cleanup_param_value v)) kvs)"
| "cleanup_param_values v = v"

section \<open>Case-insensitive header dictionary\<close>

text \<open>
  \<^verbatim>\<open>requests.structures.CaseInsensitiveDict\<close> keeps a store from the lower-cased
  key to the pair of the key as last written and its value.
\<close>

type_synonym ci_dict = "(string \<times> (string \<times> pyval)) list"

definition ci_set :: "string \<Rightarrow> pyval \<Rightarrow> ci_dict \<Rightarrow> ci_dict" where
  "ci_set k v d = AList.update (lower k) (k, v) d"

definition ci_get :: "ci_dict \<Rightarrow> string \<Rightarrow> pyval option" where
  "ci_get d k = map_option snd (map_of d (lower k))"

text \<open>\<^verbatim>\<open>d.update(other)\<close>: the items of \<^verbatim>\<open>other\<close> are written one by one.\<close>

definition ci_update :: "(string \<times> pyval) list \<Rightarrow> ci_dict \<Rightarrow> ci_dict" where
  "ci_update other d = fold (\<lambda>(k, v). ci_set k v) other d"

section \<open>The HTTP transport and the environment\<close>

text \<open>
  \<^verbatim>\<open>requests.request\<close> is outside the SDK. A call is recorded by its arguments;
  the server's answer may depend on the calls made so far. \<^verbatim>\<open>json_body\<close> is
  what \<^verbatim>\<open>response.json()\<close> returns, \<^verbatim>\<open>None\<close> when it raises.
\<close>

datatype auth_arg = NoAuth | TokenAuth pyval | BasicAuth pyval pyval

record http_request =
  req_method :: string
  req_url :: string
  req_auth :: auth_arg
  req_headers :: ci_dict
  req_params :: pyval
  req_data :: pyval
  req_kwargs :: "(string \<times> pyval) list"

record response =
  status_code :: int
  json_body :: "pyval option"

text \<open>
  \<^verbatim>\<open>sdk_version\<close> is \<^verbatim>\<open>__version__\<close> of the module \<^verbatim>\<open>version\<close>;
  \<^verbatim>\<open>http_send\<close> is \<^verbatim>\<open>requests.request\<close>; \<^verbatim>\<open>vcap_services\<close> is the environment
  variable \<^verbatim>\<open>VCAP_SERVICES\<close>: unset, or set to a text that \<^verbatim>\<open>json.loads\<close>
  rejects (\<^verbatim>\<open>Some None\<close>) or parses.
\<close>

record env =
  sdk_version :: string
  http_send :: "http_request list \<Rightarrow> http_request \<Rightarrow> py_exception + response"
  vcap_services :: "pyval option option"

section \<open>GlpiService\<close>

record glpi_service =
  svc_version :: string
  url :: pyval
  app_token :: pyval
  uri :: string
  username :: pyval
  password :: pyval
  token_auth :: pyval
  session :: pyval
  vcap_service_credentials :: pyval

type_synonym svc_state = "glpi_service \<times> http_request list"

text \<open>\<^verbatim>\<open>set_session_token\<close> (lines 148-172).\<close>

definition set_session_token :: "env \<Rightarrow> svc_state \<Rightarrow> (py_exception + bool) \<times> svc_state" where
  "set_session_token e st =
     (case st of (c, log) \<Rightarrow>
        (case add_str (url c) ''/initSession'' of
           Inl ex \<Rightarrow> (Inl ex, st)
         | Inr full_url \<Rightarrow>
             (let headers = ci_update [(''App-Token'', app_token c),
                                       (''Content-Type'', PStr ''application/json'')] [];
                  auth = (if token_auth c \<noteq> PNone then TokenAuth (token_auth c)
                          else BasicAuth (username c) (password c));
                  call = \<lparr>req_method = ''GET'', req_url = full_url, req_auth = auth,
                          req_headers = headers, req_params = PNone, req_data = PNone,
                          req_kwargs = []\<rparr>
              in (case http_send e log call of
                    Inl ex \<Rightarrow> (Inl ex, (c, log @ [call]))
                  | Inr r \<Rightarrow>
                      (case json_body r of
                         None \<Rightarrow> (Inl (UnableToInitSession ValueError), (c, log @ [call]))
                       | Some j \<Rightarrow>
                           (case py_getitem j (PStr ''session_token'') of
                              Inl ex \<Rightarrow> (Inl (UnableToInitSession ex), (c, log @ [call]))
                            | Inr tok \<Rightarrow> (Inr True, (c\<lparr>session := tok\<rparr>, log @ [call]))))))))"

text \<open>\<^verbatim>\<open>get_session_token\<close> (lines 174-183).\<close>

definition get_session_token :: "env \<Rightarrow> svc_state \<Rightarrow> (py_exception + pyval) \<times> svc_state" where
  "get_session_token e st =
     (case st of (c, log) \<Rightarrow>
        if session c \<noteq> PNone then (Inr (session c), st)
        else (case set_session_token e st of
                (Inl ex, st') \<Rightarrow> (Inl ex, st')
              | (Inr ok, (c', log')) \<Rightarrow>
                  (if ok then (Inr (session c'), (c', log'))
                   else (Inr (PStr ''Unable to get Session Token''), (c', log')))))"

text \<open>\<^verbatim>\<open>update_session_token\<close> (lines 185-191).\<close>

definition update_session_token :: "glpi_service \<Rightarrow> pyval \<Rightarrow> pyval \<times> glpi_service" where
  "update_session_token c session_id =
     (let c' = (if truthy session_id then c\<lparr>session := session_id\<rparr> else c)
      in (session c', c'))"

text \<open>
  \<^verbatim>\<open>_get_error_message\<close> (lines 203-233). The \<^verbatim>\<open>try\<close> block assigns
  \<^verbatim>\<open>error_message\<close> in three steps; an exception in a step leaves the message
  of the steps before it. \<^verbatim>\<open>error_message_head\<close> is the \<^verbatim>\<open>if/elif\<close> chain,
  \<^verbatim>\<open>error_message_description\<close> the \<^verbatim>\<open>description\<close> suffix.
\<close>

definition error_message_head :: "pyval \<Rightarrow> py_exception + string" where
  "error_message_head error_json =
     (case py_in ''error'' error_json of
        Inl ex \<Rightarrow> Inl ex
      | Inr True \<Rightarrow>
          (case py_getitem error_json (PStr ''error'') of
             Inl ex \<Rightarrow> Inl ex
           | Inr err \<Rightarrow>
               (case err of
                  PDict kvs \<Rightarrow>
                    (if ''description'' \<in> set (map fst kvs)
                     then (case py_getitem err (PStr ''description'') of
                             Inl ex \<Rightarrow> Inl ex
                           | Inr d \<Rightarrow> str_add ''Error: '' d)
                     else str_add ''Error: '' err)
                | _ \<Rightarrow> str_add ''Error: '' err))
      | Inr False \<Rightarrow>
          (case py_in ''error_message'' error_json of
             Inl ex \<Rightarrow> Inl ex
           | Inr True \<Rightarrow>
               (case py_getitem error_json (PStr ''error_message'') of
                  Inl ex \<Rightarrow> Inl ex
                | Inr m \<Rightarrow> str_add ''Error: '' m)
           | Inr False \<Rightarrow>
               (case py_in ''msg'' error_json of
                  Inl ex \<Rightarrow> Inl ex
                | Inr True \<Rightarrow>
                    (case py_getitem error_json (PStr ''msg'') of
                       Inl ex \<Rightarrow> Inl ex
                     | Inr m \<Rightarrow> str_add ''Error: '' m)
                | Inr False \<Rightarrow>
                    (case py_in ''statusInfo'' error_json of
                       Inl ex \<Rightarrow> Inl ex
                     | Inr True \<Rightarrow>
                         (case py_getitem error_json (PStr ''statusInfo'') of
                            Inl ex \<Rightarrow> Inl ex
                          | Inr m \<Rightarrow> str_add ''Error: '' m)
                     | Inr False \<Rightarrow> Inr ''Unknown error''))))"

definition error_message_description :: "pyval \<Rightarrow> string \<Rightarrow> py_exception + string" where
  "error_message_description error_json error_message =
     (case py_in ''description'' error_json of
        Inl ex \<Rightarrow> Inl ex
      | Inr True \<Rightarrow>
          (case py_getitem error_json (PStr ''description'') of
             Inl ex \<Rightarrow> Inl ex
           | Inr d \<Rightarrow>
               (case str_add '', Description: '' d of
                  Inl ex \<Rightarrow> Inl ex
                | Inr extra \<Rightarrow> Inr (error_message @ extra)))
      | Inr False \<Rightarrow> Inr error_message)"

definition get_error_message :: "response \<Rightarrow> string" where
  "get_error_message response =
     (case json_body response of
        None \<Rightarrow> ''Unknown error''
      | Some error_json \<Rightarrow>
          (case error_message_head error_json of
             Inl ex \<Rightarrow> ''Unknown error''
           | Inr m1 \<Rightarrow>
               (case error_message_description error_json m1 of
                  Inl ex \<Rightarrow> m1
                | Inr m2 \<Rightarrow> m2 @ '', Code: '' @ str_int (status_code response))))"

text \<open>
  The keyword arguments of \<^verbatim>\<open>request\<close> (line 235) with their defaults.
  \<^verbatim>\<open>headers\<close> is a dict; \<^verbatim>\<open>arg_kwargs\<close> are the extra keyword arguments,
  whose names are none of the named parameters.
\<close>

record request_args =
  arg_accept_json :: bool
  arg_headers :: "(string \<times> pyval) list"
  arg_params :: pyval
  arg_json :: pyval
  arg_data :: pyval
  arg_files :: pyval
  arg_kwargs :: "(string \<times> pyval) list"

definition default_args :: request_args where
  "default_args =
     \<lparr>arg_accept_json = False, arg_headers = [], arg_params = PNone, arg_json = PNone,
      arg_data = PNone, arg_files = PNone, arg_kwargs = []\<rparr>"

text \<open>The local variables \<^verbatim>\<open>params\<close>, \<^verbatim>\<open>json\<close>, \<^verbatim>\<open>data\<close> and \<^verbatim>\<open>files\<close> after
  lines 263-268.\<close>

record request_locals =
  loc_params :: pyval
  loc_json :: pyval
  loc_data :: pyval
  loc_files :: pyval

definition strip_arguments :: "request_args \<Rightarrow> request_locals" where
  "strip_arguments a =
     \<lparr>loc_params = cleanup_param_values (remove_null_values (arg_params a)),
      loc_json = remove_null_values (arg_json a),
      loc_data = remove_null_values (arg_data a),
      loc_files = remove_null_values (arg_files a)\<rparr>"

text \<open>The headers sent by \<^verbatim>\<open>request\<close> (lines 243-261), once the session token
  is there.\<close>

definition request_headers :: "env \<Rightarrow> glpi_service \<Rightarrow> request_args \<Rightarrow> ci_dict" where
  "request_headers e c a =
     (let input_headers = (if arg_headers a \<noteq> [] then remove_null_items (arg_headers a) else []);
          h0 = ci_update [(''user-agent'', PStr (''glpi-sdk-python-'' @ sdk_version e))] [];
          h1 = (if arg_accept_json a then ci_set ''accept'' (PStr ''application/json'') h0 else h0);
          h2 = ci_update [(''Session-Token'', session c)] h1;
          h3 = (if app_token c \<noteq> PNone then ci_update [(''App-Token'', app_token c)] h2 else h2)
      in ci_update input_headers h3)"

text \<open>
  The application-level error check of a parsed 2xx body (lines 277-286). It
  assigns \<^verbatim>\<open>response.status_code\<close>, so the response is returned with the
  outcome: \<^verbatim>\<open>Inl\<close> is the exception raised, \<^verbatim>\<open>Inr ()\<close> falls through to
  \<^verbatim>\<open>return response_json\<close>.
\<close>

definition check_status_error :: "response \<Rightarrow> pyval \<Rightarrow> (py_exception + unit) \<times> response" where
  "check_status_error response response_json =
     (case py_in ''status'' response_json of
        Inl ex \<Rightarrow> (Inl ex, response)
      | Inr False \<Rightarrow> (Inr (), response)
      | Inr True \<Rightarrow>
          (case py_getitem response_json (PStr ''status'') of
             Inl ex \<Rightarrow> (Inl ex, response)
           | Inr s \<Rightarrow>
               if s \<noteq> PStr ''ERROR'' then (Inr (), response)
               else
                 (let r1 = response\<lparr>status_code := 400\<rparr>
                  in (case py_in ''statusInfo'' response_json of
                        Inl ex \<Rightarrow> (Inl ex, r1)
                      | Inr has_info \<Rightarrow>
                          (case (if has_info then py_getitem response_json (PStr ''statusInfo'')
                                 else Inr (PStr ''Unknown error'')) of
                             Inl ex \<Rightarrow> (Inl ex, r1)
                           | Inr error_message \<Rightarrow>
                               (let r2 = (if error_message = PStr ''invalid-app-token''
                                          then r1\<lparr>status_code := 401\<rparr> else r1)
                                in (case str_add ''Error: '' error_message of
                                      Inl ex \<Rightarrow> (Inl ex, r2)
                                    | Inr msg \<Rightarrow> (Inl (GlpiException msg), r2))))))))"

text \<open>What a method hands back: a plain value or a response object.\<close>

datatype py_object = Value pyval | Response response

text \<open>What \<^verbatim>\<open>request\<close> does with the response (lines 274-295).\<close>

definition handle_response :: "bool \<Rightarrow> response \<Rightarrow> py_exception + py_object" where
  "handle_response accept_json response =
     (if 200 \<le> status_code response \<and> status_code response \<le> 299 then
        (if accept_json then
           (case json_body response of
              None \<Rightarrow> Inl ValueError
            | Some response_json \<Rightarrow>
                (case fst (check_status_error response response_json) of
                   Inl ex \<Rightarrow> Inl ex
                 | Inr u \<Rightarrow> Inr (Value response_json)))
         else Inr (Response response))
      else
        (if status_code response = 401 then
           Inl (GlpiException ''Unauthorized: Access is denied due to invalid credentials '')
         else Inl (GlpiException (get_error_message response))))"

text \<open>Lines 252-253: a session is initialised only when none is cached.\<close>

definition ensure_session :: "env \<Rightarrow> svc_state \<Rightarrow> (py_exception + bool) \<times> svc_state" where
  "ensure_session e st =
     (if session (fst st) = PNone then set_session_token e st else (Inr True, st))"

text \<open>
  The call of lines 270-272: \<^verbatim>\<open>method\<close>, \<^verbatim>\<open>url\<close>, \<^verbatim>\<open>headers\<close>, \<^verbatim>\<open>params\<close>,
  \<^verbatim>\<open>data\<close> and the extra keyword arguments are handed to the transport, and
  nothing else.
\<close>

definition api_call :: "env \<Rightarrow> glpi_service \<Rightarrow> string \<Rightarrow> string \<Rightarrow> request_args \<Rightarrow> http_request" where
  "api_call e c method full_url a =
     \<lparr>req_method = method, req_url = full_url, req_auth = NoAuth,
      req_headers = request_headers e c a,
      req_params = loc_params (strip_arguments a),
      req_data = loc_data (strip_arguments a),
      req_kwargs = arg_kwargs a\<rparr>"

text \<open>\<^verbatim>\<open>request\<close> (lines 235-295).\<close>

definition request ::
  "env \<Rightarrow> svc_state \<Rightarrow> string \<Rightarrow> string \<Rightarrow> request_args \<Rightarrow>
   (py_exception + py_object) \<times> svc_state" where
  "request e st method path a =
     (case add_str (url (fst st)) path of
        Inl ex \<Rightarrow> (Inl ex, st)
      | Inr full_url \<Rightarrow>
          (case ensure_session e st of
             (Inl ex, st') \<Rightarrow> (Inl (UnableToGetSessionToken ex), st')
           | (Inr ok, (c', log')) \<Rightarrow>
               (let call = api_call e c' method full_url a
                in (case http_send e log' call of
                      Inl ex \<Rightarrow> (Inl ex, (c', log' @ [call]))
                    | Inr response \<Rightarrow>
                        (handle_response (arg_accept_json a) response,
                         (c', log' @ [call]))))))"

text \<open>
  The ids and item attributes a caller passes are scalars: \<^verbatim>\<open>None\<close>, a bool,
  an \<^verbatim>\<open>int\<close> or a \<^verbatim>\<open>str\<close>. \<^verbatim>\<open>py_str\<close> is \<^verbatim>\<open>str(v)\<close>, also what \<^verbatim>\<open>%s\<close>
  prints; \<^verbatim>\<open>py_int_text\<close> is what \<^verbatim>\<open>%d\<close> prints for an instance of
  \<^verbatim>\<open>int\<close> (a bool is one). \<^verbatim>\<open>AInt\<close> stands for objects of type \<^verbatim>\<open>int\<close>; the
  \<^verbatim>\<open>long\<close> of Python 2, which is no instance of \<^verbatim>\<open>int\<close>, is not modelled.
\<close>

datatype atom = ANone | ABool bool | AInt int | AStr string

fun py_str :: "atom \<Rightarrow> string" where
  "py_str ANone = ''None''"
| "py_str (ABool b) = (if b then ''True'' else ''False'')"
| "py_str (AInt i) = str_int i"
| "py_str (AStr s) = s"

fun py_int_text :: "atom \<Rightarrow> string option" where
  "py_int_text (AInt i) = Some (str_int i)"
| "py_int_text (ABool b) = Some (if b then ''1'' else ''0'')"
| "py_int_text _ = None"

text \<open>\<^verbatim>\<open>get_payload\<close> (lines 297-313): one step of the loop, then the loop.\<close>

definition payload_step :: "string \<Rightarrow> string \<times> atom \<Rightarrow> string" where
  "payload_step data_str kv =
     (case kv of (k, v) \<Rightarrow>
        (let data_str1 = (if data_str \<noteq> [] then data_str @ '','' else data_str)
         in if v = AStr ''<DEFAULT_NULL>'' then data_str1 @ '' \"'' @ k @ ''\": null''
            else (case v of
                    AStr s \<Rightarrow> data_str1 @ '' \"'' @ k @ ''\": \"'' @ s @ ''\"''
                  | _ \<Rightarrow> data_str1 @ '' \"'' @ k @ ''\": '' @ py_str v)))"

definition get_payload :: "(string \<times> atom) list \<Rightarrow> string" where
  "get_payload data_req = foldl payload_step [] data_req"

text \<open>\<^verbatim>\<open>res.json()\<close> on what \<^verbatim>\<open>request\<close> returned.\<close>

fun result_json :: "py_object \<Rightarrow> py_exception + pyval" where
  "result_json (Response r) =
     (case json_body r of None \<Rightarrow> Inl ValueError | Some j \<Rightarrow> Inr j)"
| "result_json (Value j) = Inl AttributeError"

text \<open>\<^verbatim>\<open>GlpiService.get_all\<close> (lines 316-320).\<close>

definition get_all :: "env \<Rightarrow> svc_state \<Rightarrow> (py_exception + pyval) \<times> svc_state" where
  "get_all e st =
     (case request e st ''GET'' (uri (fst st)) default_args of
        (Inl ex, st') \<Rightarrow> (Inl ex, st')
      | (Inr res, st') \<Rightarrow> (result_json res, st'))"

text \<open>\<^verbatim>\<open>GlpiService.get\<close> (lines 322-331).\<close>

definition get :: "env \<Rightarrow> svc_state \<Rightarrow> atom \<Rightarrow> (py_exception + pyval) \<times> svc_state" where
  "get e st item_id =
     (case py_int_text item_id of
        Some d \<Rightarrow>
          (case request e st ''GET'' (''/'' @ uri (fst st) @ ''/'' @ d) default_args of
             (Inl ex, st') \<Rightarrow> (Inl ex, st')
           | (Inr res, st') \<Rightarrow> (result_json res, st'))
      | None \<Rightarrow>
          (Inr (PDict [(''error_message'',
                        PStr (''Unale to get '' @ uri (fst st) @ '' ID ['' @ py_str item_id @ '']''))]),
           st))"

text \<open>\<^verbatim>\<open>GlpiService.create\<close> (lines 333-343).\<close>

definition create ::
  "env \<Rightarrow> svc_state \<Rightarrow> (string \<times> atom) list option \<Rightarrow> (py_exception + py_object) \<times> svc_state" where
  "create e st object_data =
     (case object_data of
        None \<Rightarrow> (Inr (Value (PStr ''{ 'error_message' : 'Object not found.'}'')), st)
      | Some d \<Rightarrow>
          (let payload = ''{\"input\": { '' @ get_payload d @ '' }}''
           in request e st ''POST'' (uri (fst st))
                (default_args\<lparr>arg_data := PStr payload, arg_accept_json := True\<rparr>)))"

text \<open>\<^verbatim>\<open>GlpiService.search_options\<close> (lines 345-350).\<close>

definition search_options ::
  "env \<Rightarrow> svc_state \<Rightarrow> string \<Rightarrow> (py_exception + py_object) \<times> svc_state" where
  "search_options e st item_name =
     (let new_uri = uri (fst st) @ ''/'' @ item_name
      in request e st ''GET'' new_uri (default_args\<lparr>arg_accept_json := True\<rparr>))"

section \<open>Constructing a GlpiService\<close>

text \<open>
  \<^verbatim>\<open>load_from_vcap_services\<close> (lines 26-33). The service name is a string or
  \<^verbatim>\<open>None\<close> (the constructor's default); \<^verbatim>\<open>None\<close> is no key of a parsed JSON
  object and cannot index a list.
\<close>

fun none_in :: "pyval \<Rightarrow> py_exception + bool" where
  "none_in (PDict kvs) = Inr False"
| "none_in (PList xs) = Inr (PNone \<in> set xs)"
| "none_in _ = Inl TypeError"

definition load_from_vcap_services :: "env \<Rightarrow> string option \<Rightarrow> py_exception + pyval" where
  "load_from_vcap_services e service_name =
     (case vcap_services e of
        None \<Rightarrow> Inr PNone
      | Some None \<Rightarrow> Inl ValueError
      | Some (Some services) \<Rightarrow>
          (case (case service_name of None \<Rightarrow> none_in services
                 | Some n \<Rightarrow> py_in n services) of
             Inl ex \<Rightarrow> Inl ex
           | Inr False \<Rightarrow> Inr PNone
           | Inr True \<Rightarrow>
               (case py_getitem services (case service_name of None \<Rightarrow> PNone | Some n \<Rightarrow> PStr n) of
                  Inl ex \<Rightarrow> Inl ex
                | Inr entries \<Rightarrow>
                    (case py_getitem entries (PInt 0) of
                       Inl ex \<Rightarrow> Inl ex
                     | Inr entry \<Rightarrow> py_getitem entry (PStr ''credentials'')))))"

text \<open>\<^verbatim>\<open>set_username_and_password\<close> (lines 124-131).\<close>

definition set_username_and_password :: "glpi_service \<Rightarrow> pyval \<Rightarrow> pyval \<Rightarrow> glpi_service" where
  "set_username_and_password c username0 password0 =
     (let username1 = (if username0 = PStr ''YOUR SERVICE USERNAME'' then PNone else username0);
          password1 = (if password0 = PStr ''YOUR SERVICE PASSWORD'' then PNone else password0)
      in c\<lparr>username := username1, password := password1\<rparr>)"

text \<open>\<^verbatim>\<open>set_token_auth\<close> (lines 133-137).\<close>

definition set_token_auth :: "glpi_service \<Rightarrow> pyval \<Rightarrow> glpi_service" where
  "set_token_auth c token_auth0 =
     (let token_auth1 = (if token_auth0 = PStr ''YOUR AUTH TOKEN'' then PNone else token_auth0)
      in c\<lparr>token_auth := token_auth1\<rparr>)"

text \<open>\<^verbatim>\<open>set_uri\<close> (lines 139-140).\<close>

definition set_uri :: "glpi_service \<Rightarrow> string \<Rightarrow> glpi_service" where
  "set_uri c new_uri = c\<lparr>uri := new_uri\<rparr>"

text \<open>One \<^verbatim>\<open>if 'k' in credentials: self.k = credentials['k']\<close> of lines 104-112.\<close>

definition take_credential ::
  "(string \<times> pyval) list \<Rightarrow> string \<Rightarrow> (pyval \<Rightarrow> glpi_service \<Rightarrow> glpi_service) \<Rightarrow>
   glpi_service \<Rightarrow> glpi_service" where
  "take_credential creds k assign c = (case map_of creds k of None \<Rightarrow> c | Some v \<Rightarrow> assign v c)"

text \<open>The credentials branch of the constructor (lines 98-112).\<close>

definition use_vcap_credentials ::
  "env \<Rightarrow> string option \<Rightarrow> glpi_service \<Rightarrow> py_exception + glpi_service" where
  "use_vcap_credentials e vcap_services_name c =
     (case load_from_vcap_services e vcap_services_name of
        Inl ex \<Rightarrow> Inl ex
      | Inr credentials \<Rightarrow>
          (let c1 = c\<lparr>vcap_service_credentials := credentials\<rparr>
           in (case credentials of
                 PDict creds \<Rightarrow>
                   (case map_of creds ''url'' of
                      None \<Rightarrow> Inl (KeyError (PStr ''url''))
                    | Some u \<Rightarrow>
                        Inr (take_credential creds ''app_token'' (\<lambda>v s. s\<lparr>app_token := v\<rparr>)
                            (take_credential creds ''token_auth'' (\<lambda>v s. s\<lparr>token_auth := v\<rparr>)
                            (take_credential creds ''password'' (\<lambda>v s. s\<lparr>password := v\<rparr>)
                            (take_credential creds ''username'' (\<lambda>v s. s\<lparr>username := v\<rparr>)
                            (c1\<lparr>url := u\<rparr>))))))
               | _ \<Rightarrow> Inr c1)))"

text \<open>The final checks of the constructor (lines 114-122).\<close>

definition check_credentials :: "glpi_service \<Rightarrow> py_exception + glpi_service" where
  "check_credentials c =
     (if app_token c = PNone then
        Inl (GlpiException ''You must specify GLPI API-Token(app_token) to make API calls'')
      else if (username c = PNone \<or> password c = PNone) \<and> token_auth c = PNone then
        Inl (GlpiException
               ''You must specify your username and password, or token_authservice credentials '')
      else Inr c)"

text \<open>
  \<^verbatim>\<open>GlpiService.__init__\<close> (lines 66-122). An exception leaves no object
  behind.
\<close>

definition GlpiService_init ::
  "env \<Rightarrow> pyval \<Rightarrow> pyval \<Rightarrow> string \<Rightarrow> pyval \<Rightarrow> pyval \<Rightarrow> pyval \<Rightarrow> bool \<Rightarrow> string option \<Rightarrow>
   py_exception + glpi_service" where
  "GlpiService_init e url_apirest token_app uri0 username0 password0 token_auth0
       use_vcap_services vcap_services_name =
     (let c0 = \<lparr>svc_version = sdk_version e, url = url_apirest, app_token = token_app,
                uri = uri0, username = username0, password = password0,
                token_auth = token_auth0, session = PNone,
                vcap_service_credentials = PNone\<rparr>
      in (case (if token_auth0 \<noteq> PNone then
                  (if username0 \<noteq> PNone \<or> password0 \<noteq> PNone then
                     Inl (GlpiInvalidArgument
                            ''Cannot set token_auth and username and password together'')
                   else Inr (set_token_auth c0 token_auth0))
                else Inr (set_username_and_password c0 username0 password0)) of
            Inl ex \<Rightarrow> Inl ex
          | Inr c1 \<Rightarrow>
              (case (if use_vcap_services \<and> \<not> truthy (username c1) \<and> \<not> truthy (token_auth c1)
                     then use_vcap_credentials e vcap_services_name c1 else Inr c1) of
                 Inl ex \<Rightarrow> Inl ex
               | Inr c2 \<Rightarrow> check_credentials c2)))"

section \<open>GLPI, the generic router\<close>

record glpi =
  g_url :: pyval
  g_app_token :: pyval
  auth_token :: pyval
  item_uri :: "string option"
  item_map :: "(string \<times> string) list"
  api_rest :: "glpi_service option"
  api_session :: pyval

type_synonym glpi_state = "glpi \<times> http_request list"

text \<open>\<^verbatim>\<open>set_item_map\<close> (lines 448-450).\<close>

definition set_item_map :: "glpi \<Rightarrow> (string \<times> string) list \<Rightarrow> glpi" where
  "set_item_map g new_map = g\<lparr>item_map := new_map\<rparr>"

text \<open>\<^verbatim>\<open>GLPI.__init__\<close> (lines 420-438).\<close>

definition GLPI_init :: "pyval \<Rightarrow> pyval \<Rightarrow> pyval \<Rightarrow> (string \<times> string) list option \<Rightarrow> glpi" where
  "GLPI_init url0 app_token0 auth_token0 item_map0 =
     (let g = \<lparr>g_url = url0, g_app_token = app_token0, auth_token = auth_token0,
               item_uri = None,
               item_map = [(''ticket'', ''/Ticket''), (''knowbase'', ''/knowbaseitem''),
                           (''listSearchOptions'', ''/listSearchOptions'')],
               api_rest = None, api_session = PNone\<rparr>
      in (case item_map0 of None \<Rightarrow> g | Some m \<Rightarrow> set_item_map g m))"

text \<open>\<^verbatim>\<open>set_item\<close> (lines 444-446): the lookup raises on an unknown name.\<close>

definition set_item :: "glpi \<Rightarrow> string \<Rightarrow> py_exception + glpi" where
  "set_item g item_name =
     (case map_of (item_map g) item_name of
        None \<Rightarrow> Inl (KeyError (PStr item_name))
      | Some path \<Rightarrow> Inr (g\<lparr>item_uri := Some path\<rparr>))"

text \<open>
  \<^verbatim>\<open>set_api_uri\<close> (lines 452-457). A client is only ever built from a bound
  \<^verbatim>\<open>item_uri\<close>, which is never reset, so the path handed over is a string.
\<close>

definition set_api_uri :: "glpi \<Rightarrow> py_exception + glpi" where
  "set_api_uri g =
     (case api_rest g of
        None \<Rightarrow> Inl AttributeError
      | Some c \<Rightarrow>
          (case item_uri g of
             None \<Rightarrow> Inl TypeError
           | Some path \<Rightarrow> Inr (g\<lparr>api_rest := Some (set_uri c path)\<rparr>)))"

text \<open>\<^verbatim>\<open>init_api\<close> (lines 459-472).\<close>

definition init_api :: "env \<Rightarrow> glpi_state \<Rightarrow> (py_exception + pyval) \<times> glpi_state" where
  "init_api e st =
     (case st of (g, log) \<Rightarrow>
        (case item_uri g of
           None \<Rightarrow> (Inr (PDict [(''message_error'', PStr ''Please use set_item() before init API.'')]), st)
         | Some path \<Rightarrow>
             (case GlpiService_init e (g_url g) (g_app_token g) path PNone PNone (auth_token g)
                     False None of
                Inl ex \<Rightarrow> (Inl ex, st)
              | Inr c \<Rightarrow>
                  (case get_session_token e (c, log) of
                     (Inl ex, (c', log')) \<Rightarrow> (Inl ex, (g\<lparr>api_rest := Some c'\<rparr>, log'))
                   | (Inr tok, (c', log')) \<Rightarrow>
                       (let g' = g\<lparr>api_rest := Some c', api_session := tok\<rparr>
                        in if tok \<noteq> PNone then (Inr (PDict [(''session_token'', tok)]), (g', log'))
                           else (Inr (PDict [(''message_error'',
                                              PStr ''Unable to InitSession in GLPI Server.'')]),
                                 (g', log')))))))"

text \<open>
  \<^verbatim>\<open>init_item\<close> (lines 474-492). The lookup of line 478 is outside the
  \<^verbatim>\<open>try\<close>; the bare \<^verbatim>\<open>except\<close> around \<^verbatim>\<open>init_api\<close> turns every exception
  into \<^verbatim>\<open>False\<close> (the printed line is not modelled).
\<close>

definition init_item :: "env \<Rightarrow> glpi_state \<Rightarrow> string \<Rightarrow> (py_exception + bool) \<times> glpi_state" where
  "init_item e st item_name =
     (case st of (g, log) \<Rightarrow>
        (case map_of (item_map g) item_name of
           None \<Rightarrow> (Inl (KeyError (PStr item_name)), st)
         | Some path \<Rightarrow>
             (let update_api = (item_uri g \<noteq> Some path) in
              (case (if update_api then set_item g item_name else Inr g) of
                 Inl ex \<Rightarrow> (Inl ex, st)
               | Inr g1 \<Rightarrow>
                   (case (if api_rest g1 = None then init_api e (g1, log)
                          else (Inr PNone, (g1, log))) of
                      (Inl ex, st2) \<Rightarrow> (Inr False, st2)
                    | (Inr u, (g2, log2)) \<Rightarrow>
                        (if update_api then
                           (case set_api_uri g2 of
                              Inl ex \<Rightarrow> (Inl ex, (g2, log2))
                            | Inr g3 \<Rightarrow> (Inr True, (g3, log2)))
                         else (Inr True, (g2, log2))))))))"

text \<open>
  A router operation runs \<^verbatim>\<open>init_item\<close>, hands back a soft error if that
  returned \<^verbatim>\<open>False\<close>, and otherwise calls the client, whose new state is
  stored back in \<^verbatim>\<open>api_rest\<close>.
\<close>

definition with_client ::
  "glpi_state \<Rightarrow> (svc_state \<Rightarrow> (py_exception + 'a) \<times> svc_state) \<Rightarrow>
   (py_exception + 'a) \<times> glpi_state" where
  "with_client st f =
     (case st of (g, log) \<Rightarrow>
        (case api_rest g of
           None \<Rightarrow> (Inl AttributeError, st)
         | Some c \<Rightarrow>
             (case f (c, log) of (r, (c', log')) \<Rightarrow> (r, (g\<lparr>api_rest := Some c'\<rparr>, log')))))"

text \<open>\<^verbatim>\<open>GLPI.get_all\<close> (lines 495-500).\<close>

definition GLPI_get_all :: "env \<Rightarrow> glpi_state \<Rightarrow> string \<Rightarrow> (py_exception + pyval) \<times> glpi_state" where
  "GLPI_get_all e st item_name =
     (case init_item e st item_name of
        (Inl ex, st') \<Rightarrow> (Inl ex, st')
      | (Inr False, st') \<Rightarrow>
          (Inr (PDict [(''message_error'', PStr ''Unable to get Item in GLPI Server.'')]), st')
      | (Inr True, st') \<Rightarrow> with_client st' (get_all e))"

text \<open>\<^verbatim>\<open>GLPI.get\<close> (lines 502-507).\<close>

definition GLPI_get ::
  "env \<Rightarrow> glpi_state \<Rightarrow> string \<Rightarrow> atom \<Rightarrow> (py_exception + pyval) \<times> glpi_state" where
  "GLPI_get e st item_name item_id =
     (case init_item e st item_name of
        (Inl ex, st') \<Rightarrow> (Inl ex, st')
      | (Inr False, st') \<Rightarrow>
          (Inr (PDict [(''message_error'', PStr ''Unable to get Item by ID in GLPI Server.'')]), st')
      | (Inr True, st') \<Rightarrow> with_client st' (\<lambda>s. get e s item_id))"

text \<open>\<^verbatim>\<open>GLPI.create\<close> (lines 509-514).\<close>

definition GLPI_create ::
  "env \<Rightarrow> glpi_state \<Rightarrow> string \<Rightarrow> (string \<times> atom) list option \<Rightarrow>
   (py_exception + py_object) \<times> glpi_state" where
  "GLPI_create e st item_name item_data =
     (case init_item e st item_name of
        (Inl ex, st') \<Rightarrow> (Inl ex, st')
      | (Inr False, st') \<Rightarrow>
          (Inr (Value (PDict [(''message_error'',
                               PStr ''Unable to create an Item in GLPI Server.'')])), st')
      | (Inr True, st') \<Rightarrow> with_client st' (\<lambda>s. create e s item_data))"

text \<open>\<^verbatim>\<open>GLPI.search_options\<close> (lines 516-520).\<close>

definition GLPI_search_options ::
  "env \<Rightarrow> glpi_state \<Rightarrow> string \<Rightarrow> (py_exception + py_object) \<times> glpi_state" where
  "GLPI_search_options e st item_name =
     (case init_item e st ''listSearchOptions'' of
        (Inl ex, st') \<Rightarrow> (Inl ex, st')
      | (Inr False, st') \<Rightarrow>
          (Inr (Value (PDict [(''message_error'',
                               PStr ''Unable to create an Item in GLPI Server.'')])), st')
      | (Inr True, st') \<Rightarrow> with_client st' (\<lambda>s. search_options e s item_name))"

text \<open>The test of line 528: \<^verbatim>\<open>c['value'].lower() in d[c['field']].lower()\<close>,
  the left operand first.\<close>

definition criterion_holds :: "pyval \<Rightarrow> pyval \<Rightarrow> py_exception + bool" where
  "criterion_holds c d =
     (case py_getitem c (PStr ''value'') of
        Inl ex \<Rightarrow> Inl ex
      | Inr v \<Rightarrow>
          (case py_lower v of
             Inl ex \<Rightarrow> Inl ex
           | Inr needle \<Rightarrow>
               (case py_getitem c (PStr ''field'') of
                  Inl ex \<Rightarrow> Inl ex
                | Inr f \<Rightarrow>
                    (case py_getitem d f of
                       Inl ex \<Rightarrow> Inl ex
                     | Inr w \<Rightarrow>
                         (case py_lower w of
                            Inl ex \<Rightarrow> Inl ex
                          | Inr hay \<Rightarrow> Inr (is_substring needle hay))))))"

text \<open>The inner loop of \<^verbatim>\<open>search_criteria\<close> (lines 527-529): every criterion is
  tested, also after one has matched.\<close>

fun find_loop :: "pyval \<Rightarrow> pyval list \<Rightarrow> bool \<Rightarrow> py_exception + bool" where
  "find_loop d [] found = Inr found"
| "find_loop d (c # cs) found =
     (case criterion_holds c d of
        Inl ex \<Rightarrow> Inl ex
      | Inr b \<Rightarrow> find_loop d cs (if b then True else found))"

text \<open>The outer loop (lines 525-531).\<close>

fun result_loop :: "pyval list \<Rightarrow> pyval \<Rightarrow> pyval list \<Rightarrow> py_exception + pyval list" where
  "result_loop [] criteria result = Inr result"
| "result_loop (d # ds) criteria result =
     (case py_iter criteria of
        Inl ex \<Rightarrow> Inl ex
      | Inr cs \<Rightarrow>
          (case find_loop d cs False of
             Inl ex \<Rightarrow> Inl ex
           | Inr found \<Rightarrow> result_loop ds criteria (if found then result @ [d] else result)))"

text \<open>\<^verbatim>\<open>search_criteria\<close> (lines 522-532).\<close>

definition search_criteria :: "pyval \<Rightarrow> pyval \<Rightarrow> py_exception + pyval" where
  "search_criteria data criteria =
     (case py_iter data of
        Inl ex \<Rightarrow> Inl ex
      | Inr ds \<Rightarrow> map_sum id PList (result_loop ds criteria []))"

text \<open>\<^verbatim>\<open>search_metacriteria\<close> (lines 534-536).\<close>

definition search_metacriteria :: "pyval \<Rightarrow> pyval" where
  "search_metacriteria metacriteria = PDict [(''message_info'', PStr ''Not implemented yet'')]"

text \<open>\<^verbatim>\<open>GLPI.search\<close> (lines 538-554); \<^verbatim>\<open>has_key\<close> is a method of dicts.\<close>

definition search :: "env \<Rightarrow> glpi_state \<Rightarrow> string \<Rightarrow> pyval \<Rightarrow> (py_exception + pyval) \<times> glpi_state" where
  "search e st item_name criteria =
     (case criteria of
        PDict kvs \<Rightarrow>
          (case map_of kvs ''criteria'' of
             Some crit \<Rightarrow>
               (case GLPI_get_all e st item_name of
                  (Inl ex, st') \<Rightarrow> (Inl ex, st')
                | (Inr data, st') \<Rightarrow> (search_criteria data crit, st'))
           | None \<Rightarrow>
               (case map_of kvs ''metacriteria'' of
                  Some meta \<Rightarrow> (Inr (search_metacriteria meta), st)
                | None \<Rightarrow>
                    (Inr (PDict [(''message_error'', PStr ''Unable to find a valid criteria.'')]), st)))
      | _ \<Rightarrow> (Inl AttributeError, st))"

section \<open>A concrete server and client\<close>

text \<open>
  A small GLPI server for evaluating the model: it issues the session token
  \<^verbatim>\<open>s3ss10n\<close>, lists three tickets, rejects every creation of a ticket with
  an application-level error inside a 200 response, and answers any other path
  with a 500 whose body is no JSON.
\<close>

definition demo_tickets :: pyval where
  "demo_tickets =
     PList [PDict [(''id'', PInt 1), (''name'', PStr ''Printer is broken'')],
            PDict [(''id'', PInt 2), (''name'', PStr ''VPN access'')],
            PDict [(''id'', PInt 3), (''name'', PStr ''New PRINTER toner'')]]"

definition demo_server :: "http_request list \<Rightarrow> http_request \<Rightarrow> py_exception + response" where
  "demo_server log call =
     (if req_url call = ''http://glpi/initSession'' then
        Inr \<lparr>status_code = 200, json_body = Some (PDict [(''session_token'', PStr ''s3ss10n'')])\<rparr>
      else if req_url call = ''http://glpi/Ticket'' then
        (if req_method call = ''GET'' then Inr \<lparr>status_code = 200, json_body = Some demo_tickets\<rparr>
         else Inr \<lparr>status_code = 200,
                   json_body = Some (PDict [(''status'', PStr ''ERROR''),
                                            (''statusInfo'', PStr ''invalid-app-token'')])\<rparr>)
      else Inr \<lparr>status_code = 500, json_body = None\<rparr>)"

definition demo_env :: env where
  "demo_env = \<lparr>sdk_version = ''0.3.0'', http_send = demo_server, vcap_services = None\<rparr>"

text \<open>The same environment with \<^verbatim>\<open>VCAP_SERVICES\<close> set to a text that is no JSON.\<close>

definition garbled_env :: env where
  "garbled_env = demo_env\<lparr>vcap_services := Some None\<rparr>"

text \<open>A client bound to the tickets, with and without a cached session.\<close>

definition demo_client :: glpi_service where
  "demo_client =
     \<lparr>svc_version = ''0.3.0'', url = PStr ''http://glpi'', app_token = PStr ''app-key'',
      uri = ''/Ticket'', username = PNone, password = PNone, token_auth = PStr ''user-key'',
      session = PStr ''s3ss10n'', vcap_service_credentials = PNone\<rparr>"

definition fresh_client :: glpi_service where
  "fresh_client = demo_client\<lparr>session := PNone\<rparr>"

text \<open>A router with the built-in item map, and the same router once it has
  listed the tickets.\<close>

definition demo_router :: glpi where
  "demo_router = GLPI_init (PStr ''http://glpi'') (PStr ''app-key'') (PStr ''user-key'') None"

definition bound_router :: glpi where
  "bound_router = demo_router\<lparr>item_uri := Some ''/Ticket'', api_rest := Some demo_client,
                              api_session := PStr ''s3ss10n''\<rparr>"

section \<open>Notions used by the properties\<close>

text \<open>
  What the caller's \<^verbatim>\<open>headers\<close> argument says about a header name: the value
  of the last item, in iteration order, whose key is the name up to case and
  whose value is not \<^verbatim>\<open>None\<close>.
\<close>

definition caller_header :: "(string \<times> pyval) list \<Rightarrow> string \<Rightarrow> pyval option" where
  "caller_header hs name =
     map_of (rev (map (\<lambda>(k, v). (lower k, v)) (remove_null_items hs))) (lower name)"

text \<open>The text an item holds in a field: the item is a dict, the field is one
  of its keys, and the value is a string.\<close>

definition field_text :: "pyval \<Rightarrow> string \<Rightarrow> string option" where
  "field_text d f =
     (case d of
        PDict kvs \<Rightarrow> (case map_of kvs f of Some (PStr s) \<Rightarrow> Some s | _ \<Rightarrow> None)
      | _ \<Rightarrow> None)"

text \<open>A criterion read as a field/value pair: a dict whose \<^verbatim>\<open>field\<close> and
  \<^verbatim>\<open>value\<close> are strings.\<close>

definition criterion_of :: "pyval \<Rightarrow> (string \<times> string) option" where
  "criterion_of c =
     (case (field_text c ''field'', field_text c ''value'') of
        (Some f, Some v) \<Rightarrow> Some (f, v)
      | _ \<Rightarrow> None)"

text \<open>
  An item matches a field/value pair when the value occurs in the item's text
  for the field as a contiguous block, both in lower case.
\<close>

definition matches :: "pyval \<Rightarrow> string \<times> string \<Rightarrow> bool" where
  "matches d fv =
     (case field_text d (fst fv) of
        Some s \<Rightarrow> sublist (lower (snd fv)) (lower s)
      | None \<Rightarrow> False)"

text \<open>The environment binds no credentials: \<^verbatim>\<open>load_from_vcap_services\<close> returns,
  and what it returns is no dict.\<close>

definition no_vcap_credentials :: "env \<Rightarrow> string option \<Rightarrow> bool" where
  "no_vcap_credentials e service_name =
     (case load_from_vcap_services e service_name of
        Inl ex \<Rightarrow> False
      | Inr (PDict kvs) \<Rightarrow> False
      | Inr v \<Rightarrow> True)"

section \<open>Evaluation on concrete inputs\<close>

lemma lower_names:
  "lower ''user-agent'' = ''user-agent''"
  "lower ''accept'' = ''accept''"
  "lower ''Session-Token'' = ''session-token''"
  "lower ''session-token'' = ''session-token''"
  "lower ''App-Token'' = ''app-token''"
  "lower ''Content-Type'' = ''content-type''"
  "lower ''User-Agent'' = ''user-agent''"
  by (simp_all add: lower_def lower_char_def)

lemmas eval_defs =
  lower_names ci_set_def ci_get_def ci_update_def remove_null_items_def
  request_def ensure_session_def api_call_def request_headers_def strip_arguments_def
  handle_response_def get_error_message_def check_status_error_def set_session_token_def
  default_args_def demo_env_def demo_server_def demo_client_def fresh_client_def
  demo_tickets_def caller_header_def

section \<open>Shared lemmas\<close>



lemma request_sent:
  assumes "url c = PStr u" and "ensure_session e (c, log) = (Inr ok, (c', log'))"
  shows "request e (c, log) meth path a =
           (case http_send e log' (api_call e c' meth (u @ path) a) of
              Inl ex \<Rightarrow> Inl ex
            | Inr r \<Rightarrow> handle_response (arg_accept_json a) r,
            (c', log' @ [api_call e c' meth (u @ path) a]))"
  using assms by (simp add: request_def Let_def split: sum.split)




section \<open>The json argument\<close>




section \<open>The message of an error response without a JSON body\<close>

text \<open>
  Claim C3, as amended. When the response's status is outside 200..299 and not
  401 and its body cannot be parsed as JSON, \<^verbatim>\<open>request\<close> raises a
  \<^verbatim>\<open>GlpiException\<close> whose message is exactly \<^verbatim>\<open>Unknown error\<close>: the status code
  is appended inside the \<^verbatim>\<open>try\<close> block only, after the body has parsed.
\<close>

theorem unparseable_error_body_message:
  assumes "url c = PStr u"
    and "ensure_session e (c, log) = (Inr ok, (c', log'))"
    and "http_send e log' (api_call e c' meth (u @ path) a) = Inr r"
    and "\<not> (200 \<le> status_code r \<and> status_code r \<le> 299)"
    and "status_code r \<noteq> 401"
    and "json_body r = None"
  shows "request e (c, log) meth path a =
           (Inl (GlpiException ''Unknown error''),
            (c', log' @ [api_call e c' meth (u @ path) a]))"
  using assms(3-6) by (simp add: request_sent[OF assms(1,2)] handle_response_def get_error_message_def)

theorem unparseable_error_body_message_witness:
  "http_send demo_env [] (api_call demo_env demo_client ''GET'' (''http://glpi'' @ ''/Computer'') default_args)
     = Inr \<lparr>status_code = 500, json_body = None\<rparr> \<and>
   request demo_env (demo_client, []) ''GET'' ''/Computer'' default_args =
     (Inl (GlpiException ''Unknown error''),
      (demo_client, [] @ [api_call demo_env demo_client ''GET'' (''http://glpi'' @ ''/Computer'') default_args]))"
proof -
  have h1: "url demo_client = PStr ''http://glpi''" by (simp add: demo_client_def)
  have h2: "ensure_session demo_env (demo_client, []) = (Inr True, (demo_client, []))"
    by (simp add: ensure_session_def demo_client_def)
  have h3: "http_send demo_env [] (api_call demo_env demo_client ''GET'' (''http://glpi'' @ ''/Computer'') default_args)
     = Inr \<lparr>status_code = 500, json_body = None\<rparr>"
    by (simp add: demo_env_def demo_server_def api_call_def)
  show ?thesis
    using h3 unparseable_error_body_message [OF h1 h2 h3] by simp
qed

text \<open>
  Claim C3 as stated fails: the demo server answers \<^verbatim>\<open>/Computer\<close> with a 500
  that is no JSON, and the message raised is not \<^verbatim>\<open>Unknown error, Code: 500\<close>.
\<close>

theorem unknown_error_code_counterexample:
  "http_send demo_env [] (api_call demo_env demo_client ''GET'' ''http://glpi/Computer'' default_args)
     = Inr \<lparr>status_code = 500, json_body = None\<rparr> \<and>
   fst (request demo_env (demo_client, []) ''GET'' ''/Computer'' default_args)
     = Inl (GlpiException ''Unknown error'') \<and>
   fst (request demo_env (demo_client, []) ''GET'' ''/Computer'' default_args)
     \<noteq> Inl (GlpiException (''Unknown error, Code: '' @ str_int 500))"
  by (simp add: eval_defs)

section \<open>An application-level error inside a 2xx response\<close>

lemma check_status_error_ERROR:
  assumes "map_of kvs ''status'' = Some (PStr ''ERROR'')"
    and "map_of kvs ''statusInfo'' = None \<and> info = ''Unknown error'' \<or>
         map_of kvs ''statusInfo'' = Some (PStr info)"
  shows "check_status_error r (PDict kvs) =
           (Inl (GlpiException (''Error: '' @ info)),
            r\<lparr>status_code := (if info = ''invalid-app-token'' then 401 else 400)\<rparr>)"
proof -
  from assms(1) have k: "''status'' \<in> fst ` set kvs"
    by (metis domI dom_map_of_conv_image_fst)
  from assms(2) show ?thesis
  proof
    assume a: "map_of kvs ''statusInfo'' = None \<and> info = ''Unknown error''"
    then have "''statusInfo'' \<notin> fst ` set kvs" by (simp add: map_of_eq_None_iff)
    with a k assms(1) show ?thesis by (simp add: check_status_error_def)
  next
    assume a: "map_of kvs ''statusInfo'' = Some (PStr info)"
    then have "''statusInfo'' \<in> fst ` set kvs" by (metis domI dom_map_of_conv_image_fst)
    with a k assms(1) show ?thesis by (simp add: check_status_error_def)
  qed
qed

text \<open>
  Claim C5, as amended. For a response with status in 200..299 whose JSON body
  is an object with \<^verbatim>\<open>status\<close> equal to \<^verbatim>\<open>ERROR\<close> and whose \<^verbatim>\<open>statusInfo\<close> is a
  string (or is missing, which counts as \<^verbatim>\<open>Unknown error\<close>): when the caller
  asked for \<^verbatim>\<open>accept_json\<close>, \<^verbatim>\<open>request\<close> raises a \<^verbatim>\<open>GlpiException\<close> with the
  message \<^verbatim>\<open>Error: \<close> followed by the status info, and the response's status
  code is reassigned to 401 when the info is \<^verbatim>\<open>invalid-app-token\<close> and to 400
  otherwise; when the caller did not ask for \<^verbatim>\<open>accept_json\<close>, the body is not
  looked at and the response is returned.
\<close>

theorem status_error_in_2xx_body:
  assumes "url c = PStr u"
    and "ensure_session e (c, log) = (Inr ok, (c', log'))"
    and "http_send e log' (api_call e c' meth (u @ path) a) = Inr r"
    and "200 \<le> status_code r \<and> status_code r \<le> 299"
    and "json_body r = Some (PDict kvs)"
    and "map_of kvs ''status'' = Some (PStr ''ERROR'')"
    and "map_of kvs ''statusInfo'' = None \<and> info = ''Unknown error'' \<or>
         map_of kvs ''statusInfo'' = Some (PStr info)"
  shows "(arg_accept_json a \<longrightarrow>
            fst (request e (c, log) meth path a) = Inl (GlpiException (''Error: '' @ info)) \<and>
            status_code (snd (check_status_error r (PDict kvs)))
              = (if info = ''invalid-app-token'' then 401 else 400)) \<and>
         (\<not> arg_accept_json a \<longrightarrow>
            fst (request e (c, log) meth path a) = Inr (Response r))"
  using assms(3-5)
  by (simp add: request_sent[OF assms(1,2)] handle_response_def
        check_status_error_ERROR[OF assms(6,7)])


theorem status_error_in_2xx_body_witness:
  "arg_accept_json (default_args\<lparr>arg_accept_json := True\<rparr>) \<and>
   json_body \<lparr>status_code = 200,
              json_body = Some (PDict [(''status'', PStr ''ERROR''),
                                       (''statusInfo'', PStr ''invalid-app-token'')])\<rparr>
     = Some (PDict [(''status'', PStr ''ERROR''), (''statusInfo'', PStr ''invalid-app-token'')]) \<and>
   fst (request demo_env (demo_client, []) ''POST'' ''/Ticket''
          (default_args\<lparr>arg_accept_json := True\<rparr>))
     = Inl (GlpiException ''Error: invalid-app-token'') \<and>
   status_code (snd (check_status_error
       \<lparr>status_code = 200,
        json_body = Some (PDict [(''status'', PStr ''ERROR''),
                                 (''statusInfo'', PStr ''invalid-app-token'')])\<rparr>
       (PDict [(''status'', PStr ''ERROR''), (''statusInfo'', PStr ''invalid-app-token'')]))) = 401"
proof -
  let ?a = "default_args\<lparr>arg_accept_json := True\<rparr>"
  let ?kvs = "[(''status'', PStr ''ERROR''), (''statusInfo'', PStr ''invalid-app-token'')]"
  let ?r = "\<lparr>status_code = 200, json_body = Some (PDict ?kvs)\<rparr>"
  have h1: "url demo_client = PStr ''http://glpi''" by (simp add: demo_client_def)
  have h2: "ensure_session demo_env (demo_client, []) = (Inr True, (demo_client, []))"
    by (simp add: ensure_session_def demo_client_def)
  have h3: "http_send demo_env [] (api_call demo_env demo_client ''POST'' (''http://glpi'' @ ''/Ticket'') ?a)
     = Inr ?r"
    by (simp add: demo_env_def demo_server_def api_call_def)
  have h4: "200 \<le> status_code ?r \<and> status_code ?r \<le> 299" by simp
  have h5: "json_body ?r = Some (PDict ?kvs)" by simp
  have h6: "map_of ?kvs ''status'' = Some (PStr ''ERROR'')" by simp
  have h7: "map_of ?kvs ''statusInfo'' = None \<and> ''invalid-app-token'' = ''Unknown error'' \<or>
         map_of ?kvs ''statusInfo'' = Some (PStr ''invalid-app-token'')" by simp
  have a: "arg_accept_json ?a" by (simp add: default_args_def)
  show ?thesis
    using a h5 status_error_in_2xx_body [OF h1 h2 h3 h4 h5 h6 h7] by simp
qed

text \<open>
  Claim C5 as stated fails: with the default \<^verbatim>\<open>accept_json=False\<close> a 200
  response whose body says \<^verbatim>\<open>status: ERROR\<close> is returned, nothing is raised.
\<close>

theorem status_error_ignored_counterexample:
  "http_send demo_env [] (api_call demo_env demo_client ''POST'' ''http://glpi/Ticket'' default_args)
     = Inr \<lparr>status_code = 200,
            json_body = Some (PDict [(''status'', PStr ''ERROR''),
                                     (''statusInfo'', PStr ''invalid-app-token'')])\<rparr> \<and>
   fst (request demo_env (demo_client, []) ''POST'' ''/Ticket'' default_args)
     = Inr (Response \<lparr>status_code = 200,
            json_body = Some (PDict [(''status'', PStr ''ERROR''),
                                     (''statusInfo'', PStr ''invalid-app-token'')])\<rparr>)"
  by (simp add: eval_defs)

section \<open>Null entries and boolean parameters\<close>

lemma cleanup_param_value_not_bool: "PBool b \<noteq> cleanup_param_value v"
  by (cases v) simp_all

lemma cleanup_param_value_not_none: "v \<noteq> PNone \<Longrightarrow> PNone \<noteq> cleanup_param_value v"
  by (cases v) simp_all

text \<open>
  Claim C6. In the call that \<^verbatim>\<open>request\<close> issues, a dict of \<^verbatim>\<open>params\<close> has lost
  exactly its entries with value \<^verbatim>\<open>None\<close>, holds no boolean any more, and every
  entry that was \<^verbatim>\<open>True\<close> or \<^verbatim>\<open>False\<close> is the string \<^verbatim>\<open>true\<close> or \<^verbatim>\<open>false\<close>; a
  dict of \<^verbatim>\<open>data\<close> has lost exactly its entries with value \<^verbatim>\<open>None\<close>; and so has
  the dict of \<^verbatim>\<open>files\<close> before the call is made.
\<close>

theorem request_strips_nulls_and_booleans:
  assumes "url c = PStr u"
    and "ensure_session e (c, log) = (Inr ok, (c', log'))"
  shows "\<exists>call. snd (snd (request e (c, log) meth path a)) = log' @ [call] \<and>
     (\<forall>ps. arg_params a = PDict ps \<longrightarrow>
        (\<exists>ps'. req_params call = PDict ps' \<and>
           map fst ps' = map fst (filter (\<lambda>kv. snd kv \<noteq> PNone) ps) \<and>
           PNone \<notin> snd ` set ps' \<and> (\<forall>b. PBool b \<notin> snd ` set ps') \<and>
           (\<forall>k b. (k, PBool b) \<in> set ps \<longrightarrow> (k, PStr (if b then ''true'' else ''false'')) \<in> set ps') \<and>
           (\<forall>k v. (k, v) \<in> set ps \<longrightarrow> v \<noteq> PNone \<longrightarrow> (\<forall>b. v \<noteq> PBool b) \<longrightarrow> (k, v) \<in> set ps'))) \<and>
     (\<forall>ds. arg_data a = PDict ds \<longrightarrow> req_data call = PDict (filter (\<lambda>kv. snd kv \<noteq> PNone) ds)) \<and>
     (\<forall>fs. arg_files a = PDict fs \<longrightarrow>
        loc_files (strip_arguments a) = PDict (filter (\<lambda>kv. snd kv \<noteq> PNone) fs))"
proof -
  let ?call = "api_call e c' meth (u @ path) a"
  have sent: "snd (snd (request e (c, log) meth path a)) = log' @ [?call]"
    by (simp add: request_sent[OF assms])
  have same: "(\<lambda>(k, v). v \<noteq> PNone) = (\<lambda>kv. snd kv \<noteq> PNone)" by auto
  have params: "\<exists>ps'. req_params ?call = PDict ps' \<and>
           map fst ps' = map fst (filter (\<lambda>kv. snd kv \<noteq> PNone) ps) \<and>
           PNone \<notin> snd ` set ps' \<and> (\<forall>b. PBool b \<notin> snd ` set ps') \<and>
           (\<forall>k b. (k, PBool b) \<in> set ps \<longrightarrow> (k, PStr (if b then ''true'' else ''false'')) \<in> set ps') \<and>
           (\<forall>k v. (k, v) \<in> set ps \<longrightarrow> v \<noteq> PNone \<longrightarrow> (\<forall>b. v \<noteq> PBool b) \<longrightarrow> (k, v) \<in> set ps')"
    if p: "arg_params a = PDict ps" for ps
  proof -
    let ?ps' = "map (\<lambda>(k, v). (k, cleanup_param_value v)) (filter (\<lambda>kv. snd kv \<noteq> PNone) ps)"
    have eq: "req_params ?call = PDict ?ps'"
      by (simp add: api_call_def strip_arguments_def p remove_null_items_def same)
    have keys: "map fst ?ps' = map fst (filter (\<lambda>kv. snd kv \<noteq> PNone) ps)"
      by (simp add: case_prod_unfold comp_def)
    have nonone: "PNone \<notin> snd ` set ?ps'"
      by (auto simp: cleanup_param_value_not_none)
    have nobool: "\<forall>b. PBool b \<notin> snd ` set ?ps'"
      by (auto simp: cleanup_param_value_not_bool)
    have bools: "\<forall>k b. (k, PBool b) \<in> set ps \<longrightarrow> (k, PStr (if b then ''true'' else ''false'')) \<in> set ?ps'"
      by (force simp: image_iff)
    have others: "\<forall>k v. (k, v) \<in> set ps \<longrightarrow> v \<noteq> PNone \<longrightarrow> (\<forall>b. v \<noteq> PBool b) \<longrightarrow> (k, v) \<in> set ?ps'"
    proof (intro allI impI)
      fix k v assume kv: "(k, v) \<in> set ps" "v \<noteq> PNone" "\<forall>b. v \<noteq> PBool b"
      then have "cleanup_param_value v = v" by (cases v) auto
      with kv show "(k, v) \<in> set ?ps'" by (force simp: image_iff)
    qed
    from eq keys nonone nobool bools others show ?thesis by blast
  qed
  have data: "req_data ?call = PDict (filter (\<lambda>kv. snd kv \<noteq> PNone) ds)" if "arg_data a = PDict ds" for ds
    using that by (simp add: api_call_def strip_arguments_def remove_null_items_def same)
  have files: "loc_files (strip_arguments a) = PDict (filter (\<lambda>kv. snd kv \<noteq> PNone) fs)"
    if "arg_files a = PDict fs" for fs
    using that by (simp add: strip_arguments_def remove_null_items_def same)
  from sent params data files show ?thesis by blast
qed

theorem request_strips_nulls_and_booleans_witness:
  "snd (snd (request demo_env (demo_client, []) ''GET'' ''/Ticket''
       (default_args\<lparr>arg_params := PDict [(''expand_dropdowns'', PBool True), (''range'', PNone),
                                             (''sort'', PInt 2)],
                     arg_data := PDict [(''a'', PNone), (''b'', PStr ''x'')],
                     arg_files := PDict [(''f'', PNone)]\<rparr>)))
     = [\<lparr>req_method = ''GET'', req_url = ''http://glpi/Ticket'', req_auth = NoAuth,
         req_headers = request_headers demo_env demo_client default_args,
         req_params = PDict [(''expand_dropdowns'', PStr ''true''), (''sort'', PInt 2)],
         req_data = PDict [(''b'', PStr ''x'')], req_kwargs = []\<rparr>] \<and>
   loc_files (strip_arguments (default_args\<lparr>arg_files := PDict [(''f'', PNone)]\<rparr>)) = PDict []"
proof -
  let ?a = "default_args\<lparr>arg_params := PDict [(''expand_dropdowns'', PBool True), (''range'', PNone),
                                             (''sort'', PInt 2)],
                     arg_data := PDict [(''a'', PNone), (''b'', PStr ''x'')],
                     arg_files := PDict [(''f'', PNone)]\<rparr>"
  have h1: "url demo_client = PStr ''http://glpi''" by (simp add: demo_client_def)
  have h2: "ensure_session demo_env (demo_client, []) = (Inr True, (demo_client, []))"
    by (simp add: ensure_session_def demo_client_def)
  from request_strips_nulls_and_booleans [OF h1 h2, where meth = "''GET''" and path = "''/Ticket''" and a = ?a]
  obtain call where
    c: "snd (snd (request demo_env (demo_client, []) ''GET'' ''/Ticket'' ?a)) = [] @ [call]"
    by blast
  have "snd (snd (request demo_env (demo_client, []) ''GET'' ''/Ticket'' ?a)) =
     [\<lparr>req_method = ''GET'', req_url = ''http://glpi/Ticket'', req_auth = NoAuth,
         req_headers = request_headers demo_env demo_client default_args,
         req_params = PDict [(''expand_dropdowns'', PStr ''true''), (''sort'', PInt 2)],
         req_data = PDict [(''b'', PStr ''x'')], req_kwargs = []\<rparr>]"
    by (simp add: request_sent[OF h1 h2] api_call_def strip_arguments_def remove_null_items_def
          default_args_def request_headers_def)
  moreover have "loc_files (strip_arguments (default_args\<lparr>arg_files := PDict [(''f'', PNone)]\<rparr>)) = PDict []"
    by (simp add: strip_arguments_def remove_null_items_def)
  ultimately show ?thesis using c by simp
qed

section \<open>The token headers\<close>

lemma ci_get_set: "ci_get (ci_set k v d) name = (if lower k = lower name then Some v else ci_get d name)"
  by (simp add: ci_get_def ci_set_def update_conv')

lemma ci_get_update:
  "ci_get (ci_update other d) name =
     (case map_of (rev (map (\<lambda>(k, v). (lower k, v)) other)) (lower name) of
        Some v \<Rightarrow> Some v
      | None \<Rightarrow> ci_get d name)"
proof (induction other rule: rev_induct)
  case Nil
  show ?case by (simp add: ci_update_def)
next
  case (snoc x xs)
  obtain k v where x: "x = (k, v)" by (cases x)
  have "ci_update (xs @ [x]) d = ci_set k v (ci_update xs d)"
    by (simp add: ci_update_def x)
  with snoc x show ?case by (simp add: ci_get_set)
qed

lemma ci_get_empty: "ci_get [] name = None"
  by (simp add: ci_get_def)

lemma request_headers_get:
  "ci_get (request_headers e c a) name =
     (case caller_header (arg_headers a) name of
        Some v \<Rightarrow> Some v
      | None \<Rightarrow>
          if lower name = ''app-token'' \<and> app_token c \<noteq> PNone then Some (app_token c)
          else if lower name = ''session-token'' then Some (session c)
          else if lower name = ''accept'' \<and> arg_accept_json a then Some (PStr ''application/json'')
          else if lower name = ''user-agent'' then Some (PStr (''glpi-sdk-python-'' @ sdk_version e))
          else None)"
proof -
  have ih: "(if arg_headers a \<noteq> [] then remove_null_items (arg_headers a) else []) = remove_null_items (arg_headers a)"
    by (simp add: remove_null_items_def)
  show ?thesis
    unfolding request_headers_def Let_def ih
    by (auto simp add: ci_get_update ci_get_set ci_get_empty caller_header_def lower_names
          split: option.split)
qed

text \<open>
  Claim C1, as amended. In the call that \<^verbatim>\<open>request\<close> issues, a header the caller
  supplied (with a value other than \<^verbatim>\<open>None\<close>) wins on every key, compared without
  regard to case, \<^verbatim>\<open>Session-Token\<close> and \<^verbatim>\<open>App-Token\<close> included: the caller's
  headers are merged last. Only when the caller supplied none is
  \<^verbatim>\<open>Session-Token\<close> the client's cached session token, \<^verbatim>\<open>App-Token\<close> the client's
  app token, and \<^verbatim>\<open>user-agent\<close> the SDK's identifier.
\<close>

theorem request_token_headers:
  assumes "url c = PStr u"
    and "ensure_session e (c, log) = (Inr ok, (c', log'))"
  shows "\<exists>call. snd (snd (request e (c, log) meth path a)) = log' @ [call] \<and>
     ci_get (req_headers call) ''Session-Token'' =
       (case caller_header (arg_headers a) ''Session-Token'' of
          Some v \<Rightarrow> Some v | None \<Rightarrow> Some (session c')) \<and>
     ci_get (req_headers call) ''App-Token'' =
       (case caller_header (arg_headers a) ''App-Token'' of
          Some v \<Rightarrow> Some v
        | None \<Rightarrow> if app_token c' \<noteq> PNone then Some (app_token c') else None) \<and>
     ci_get (req_headers call) ''user-agent'' =
       (case caller_header (arg_headers a) ''user-agent'' of
          Some v \<Rightarrow> Some v
        | None \<Rightarrow> Some (PStr (''glpi-sdk-python-'' @ sdk_version e)))"
proof -
  let ?call = "api_call e c' meth (u @ path) a"
  have sent: "snd (snd (request e (c, log) meth path a)) = log' @ [?call]"
    by (simp add: request_sent[OF assms])
  have hd: "req_headers ?call = request_headers e c' a" by (simp add: api_call_def)
  show ?thesis
    apply (rule exI[of _ ?call])
    apply (simp only: sent hd request_headers_get)
    apply (simp add: lower_names split: option.split)
    done
qed


theorem request_token_headers_witness:
  "caller_header [(''session-token'', PStr ''forged''), (''App-Token'', PNone)] ''Session-Token''
     = Some (PStr ''forged'') \<and>
   caller_header [(''session-token'', PStr ''forged''), (''App-Token'', PNone)] ''App-Token'' = None \<and>
   map (\<lambda>call. (ci_get (req_headers call) ''Session-Token'', ci_get (req_headers call) ''App-Token''))
     (snd (snd (request demo_env (demo_client, []) ''GET'' ''/Ticket''
        (default_args\<lparr>arg_headers := [(''session-token'', PStr ''forged''), (''App-Token'', PNone)]\<rparr>))))
     = [(Some (PStr ''forged''), Some (PStr ''app-key''))]"
proof -
  let ?hs = "[(''session-token'', PStr ''forged''), (''App-Token'', PNone)]"
  let ?a = "default_args\<lparr>arg_headers := ?hs\<rparr>"
  have h1: "url demo_client = PStr ''http://glpi''" by (simp add: demo_client_def)
  have h2: "ensure_session demo_env (demo_client, []) = (Inr True, (demo_client, []))"
    by (simp add: ensure_session_def demo_client_def)
  have c1: "caller_header ?hs ''Session-Token'' = Some (PStr ''forged'')"
    by (simp add: caller_header_def remove_null_items_def lower_names)
  have c2: "caller_header ?hs ''App-Token'' = None"
    by (simp add: caller_header_def remove_null_items_def lower_names)
  have hs: "arg_headers ?a = ?hs" by (simp add: default_args_def)
  have tok: "app_token demo_client = PStr ''app-key''" by (simp add: demo_client_def)
  from request_token_headers [OF h1 h2, where meth = "''GET''" and path = "''/Ticket''" and a = ?a]
  obtain call where
    "snd (snd (request demo_env (demo_client, []) ''GET'' ''/Ticket'' ?a)) = [] @ [call]"
    "ci_get (req_headers call) ''Session-Token'' = Some (PStr ''forged'')"
    "ci_get (req_headers call) ''App-Token'' = Some (PStr ''app-key'')"
    unfolding hs c1 c2 tok by auto
  with c1 c2 show ?thesis by simp
qed

text \<open>
  Claim C1 as stated fails: a caller who passes \<^verbatim>\<open>session-token\<close> and
  \<^verbatim>\<open>APP-TOKEN\<close> headers has them transmitted in place of the client's tokens.
\<close>

theorem caller_overrides_tokens_counterexample:
  "session (fst (snd (request demo_env (demo_client, []) ''GET'' ''/Ticket''
        (default_args\<lparr>arg_headers := [(''session-token'', PStr ''forged''),
                                         (''APP-TOKEN'', PStr ''other'')]\<rparr>)))) = PStr ''s3ss10n'' \<and>
   app_token (fst (snd (request demo_env (demo_client, []) ''GET'' ''/Ticket''
        (default_args\<lparr>arg_headers := [(''session-token'', PStr ''forged''),
                                         (''APP-TOKEN'', PStr ''other'')]\<rparr>)))) = PStr ''app-key'' \<and>
   ci_get (req_headers (last (snd (snd (request demo_env (demo_client, []) ''GET'' ''/Ticket''
        (default_args\<lparr>arg_headers := [(''session-token'', PStr ''forged''),
                                         (''APP-TOKEN'', PStr ''other'')]\<rparr>)))))) ''Session-Token''
     = Some (PStr ''forged'') \<and>
   ci_get (req_headers (last (snd (snd (request demo_env (demo_client, []) ''GET'' ''/Ticket''
        (default_args\<lparr>arg_headers := [(''session-token'', PStr ''forged''),
                                         (''APP-TOKEN'', PStr ''other'')]\<rparr>)))))) ''App-Token''
     = Some (PStr ''other'')"
proof -
  have l: "lower ''APP-TOKEN'' = ''app-token''" by (simp add: lower_def lower_char_def)
  show ?thesis by (simp add: eval_defs l)
qed

section \<open>Creating without data\<close>

text \<open>
  Claim C4, as amended. \<^verbatim>\<open>create(None)\<close> returns its error text at once, with
  no HTTP call and the client and the log unchanged. An empty mapping is not
  absent data: it is serialised to an empty \<^verbatim>\<open>input\<close> envelope and posted.
\<close>

theorem create_without_data:
  "create e st None = (Inr (Value (PStr ''{ 'error_message' : 'Object not found.'}'')), st) \<and>
   create e st (Some []) =
     request e st ''POST'' (uri (fst st))
       (default_args\<lparr>arg_data := PStr ''{\"input\": {  }}'', arg_accept_json := True\<rparr>)"
  by (simp add: create_def get_payload_def)

text \<open>
  Claim C4 as stated fails for the empty mapping: \<^verbatim>\<open>create({})\<close> issues a POST,
  which the demo server answers with an application error.
\<close>

theorem create_empty_mapping_counterexample:
  "snd (create demo_env (demo_client, []) (Some [])) =
     (demo_client,
      [api_call demo_env demo_client ''POST'' ''http://glpi/Ticket''
         (default_args\<lparr>arg_data := PStr ''{\"input\": {  }}'', arg_accept_json := True\<rparr>)]) \<and>
   fst (create demo_env (demo_client, []) (Some [])) = Inl (GlpiException ''Error: invalid-app-token'')"
proof -
  let ?a = "default_args\<lparr>arg_data := PStr ''{\"input\": {  }}'', arg_accept_json := True\<rparr>"
  let ?call = "api_call demo_env demo_client ''POST'' (''http://glpi'' @ ''/Ticket'') ?a"
  let ?r = "\<lparr>status_code = 200,
            json_body = Some (PDict [(''status'', PStr ''ERROR''),
                                     (''statusInfo'', PStr ''invalid-app-token'')])\<rparr>"
  have h1: "url demo_client = PStr ''http://glpi''" by (simp add: demo_client_def)
  have h2: "ensure_session demo_env (demo_client, []) = (Inr True, (demo_client, []))"
    by (simp add: ensure_session_def demo_client_def)
  have cr: "create demo_env (demo_client, []) (Some []) =
              request demo_env (demo_client, []) ''POST'' ''/Ticket'' ?a"
    by (simp add: create_def get_payload_def demo_client_def)
  have send: "http_send demo_env [] ?call = Inr ?r"
    by (simp add: demo_env_def demo_server_def api_call_def)
  have aj: "arg_accept_json ?a" by (simp add: default_args_def)
  have hr: "handle_response True ?r = Inl (GlpiException ''Error: invalid-app-token'')"
    by (simp add: handle_response_def check_status_error_def)
  show ?thesis
    unfolding cr request_sent[OF h1 h2] send using aj hr by simp
qed

section \<open>Placeholder credentials\<close>

lemma use_vcap_credentials_none:
  assumes "no_vcap_credentials e name"
  shows "\<exists>v. use_vcap_credentials e name c = Inr (c\<lparr>vcap_service_credentials := v\<rparr>)"
proof (cases "load_from_vcap_services e name")
  case (Inl ex)
  with assms show ?thesis by (simp add: no_vcap_credentials_def)
next
  case (Inr v)
  with assms have "\<forall>kvs. v \<noteq> PDict kvs"
    by (cases v) (simp_all add: no_vcap_credentials_def)
  then have "(case v of PDict creds \<Rightarrow> x creds | _ \<Rightarrow> y) = y"
    for x :: "(string \<times> pyval) list \<Rightarrow> py_exception + glpi_service" and y
    by (cases v) simp_all
  with Inr have "use_vcap_credentials e name c = Inr (c\<lparr>vcap_service_credentials := v\<rparr>)"
    by (simp add: use_vcap_credentials_def Let_def)
  then show ?thesis by blast
qed

lemma check_credentials_fails:
  assumes "username c = PNone \<or> password c = PNone" and "token_auth c = PNone"
  shows "check_credentials (c\<lparr>vcap_service_credentials := v\<rparr>) =
           Inl (GlpiException
                 (if app_token c = PNone
                  then ''You must specify GLPI API-Token(app_token) to make API calls''
                  else ''You must specify your username and password, or token_authservice credentials ''))"
  using assms by (auto simp: check_credentials_def)

lemma init_tail_fails:
  assumes "username c = PNone \<or> password c = PNone" and "token_auth c = PNone"
    and "\<not> use_vcap \<or> no_vcap_credentials e name"
  shows "(case (if use_vcap \<and> \<not> truthy (username c) \<and> \<not> truthy (token_auth c)
                then use_vcap_credentials e name c else Inr c) of
            Inl ex \<Rightarrow> Inl ex
          | Inr c2 \<Rightarrow> check_credentials c2) =
         Inl (GlpiException
               (if app_token c = PNone
                then ''You must specify GLPI API-Token(app_token) to make API calls''
                else ''You must specify your username and password, or token_authservice credentials ''))"
proof (cases "use_vcap \<and> \<not> truthy (username c) \<and> \<not> truthy (token_auth c)")
  case True
  with assms(3) have "no_vcap_credentials e name" by simp
  from use_vcap_credentials_none[OF this, of c] obtain v where
    "use_vcap_credentials e name c = Inr (c\<lparr>vcap_service_credentials := v\<rparr>)" by blast
  with True show ?thesis by (simp add: check_credentials_fails[OF assms(1,2)])
next
  case False
  have "check_credentials c = check_credentials (c\<lparr>vcap_service_credentials := vcap_service_credentials c\<rparr>)"
    by simp
  with False show ?thesis by (simp only: if_False sum.case check_credentials_fails[OF assms(1,2)])
qed

text \<open>
  Claim C10, as amended. A \<^verbatim>\<open>GlpiService\<close> constructed with the placeholder
  \<^verbatim>\<open>YOUR AUTH TOKEN\<close> as its only credential, or with the placeholder
  \<^verbatim>\<open>YOUR SERVICE USERNAME\<close> or \<^verbatim>\<open>YOUR SERVICE PASSWORD\<close> and no auth token,
  fails with a \<^verbatim>\<open>GlpiException\<close> when the environment binding is not asked
  for, or is asked for and \<^verbatim>\<open>load_from_vcap_services\<close> returns something that
  is no dict of credentials. The binding is read before the checks, so what it
  raises comes first.
\<close>

theorem placeholder_credentials_rejected:
  assumes "\<not> use_vcap \<or> no_vcap_credentials e name"
  shows "GlpiService_init e url_apirest tok path PNone PNone (PStr ''YOUR AUTH TOKEN'') use_vcap name =
           Inl (GlpiException
                 (if tok = PNone then ''You must specify GLPI API-Token(app_token) to make API calls''
                  else ''You must specify your username and password, or token_authservice credentials ''))
       \<and> GlpiService_init e url_apirest tok path (PStr ''YOUR SERVICE USERNAME'') pw PNone use_vcap name =
           Inl (GlpiException
                 (if tok = PNone then ''You must specify GLPI API-Token(app_token) to make API calls''
                  else ''You must specify your username and password, or token_authservice credentials ''))
       \<and> GlpiService_init e url_apirest tok path un (PStr ''YOUR SERVICE PASSWORD'') PNone use_vcap name =
           Inl (GlpiException
                 (if tok = PNone then ''You must specify GLPI API-Token(app_token) to make API calls''
                  else ''You must specify your username and password, or token_authservice credentials ''))"
proof (intro conjI)
  let ?c0 = "\<lambda>u p t. \<lparr>svc_version = sdk_version e, url = url_apirest, app_token = tok,
                uri = path, username = u, password = p,
                token_auth = t, session = PNone, vcap_service_credentials = PNone\<rparr>"
  let ?msg = "Inl (GlpiException
                 (if tok = PNone then ''You must specify GLPI API-Token(app_token) to make API calls''
                  else ''You must specify your username and password, or token_authservice credentials ''))
               :: py_exception + glpi_service"
  have t: "set_token_auth (?c0 PNone PNone (PStr ''YOUR AUTH TOKEN'')) (PStr ''YOUR AUTH TOKEN'')
             = ?c0 PNone PNone PNone"
    by (simp add: set_token_auth_def)
  have 1: "(case (if use_vcap \<and> \<not> truthy (username (?c0 PNone PNone PNone))
                       \<and> \<not> truthy (token_auth (?c0 PNone PNone PNone))
                then use_vcap_credentials e name (?c0 PNone PNone PNone) else Inr (?c0 PNone PNone PNone)) of
            Inl ex \<Rightarrow> Inl ex
          | Inr c2 \<Rightarrow> check_credentials c2) = ?msg"
    using init_tail_fails[of "?c0 PNone PNone PNone" use_vcap e name] assms by simp
  show "GlpiService_init e url_apirest tok path PNone PNone (PStr ''YOUR AUTH TOKEN'') use_vcap name = ?msg"
    unfolding GlpiService_init_def Let_def using 1 by (simp add: t)
  have u: "set_username_and_password (?c0 (PStr ''YOUR SERVICE USERNAME'') pw PNone)
              (PStr ''YOUR SERVICE USERNAME'') pw
             = ?c0 PNone (if pw = PStr ''YOUR SERVICE PASSWORD'' then PNone else pw) PNone"
    by (simp add: set_username_and_password_def)
  let ?cu = "?c0 PNone (if pw = PStr ''YOUR SERVICE PASSWORD'' then PNone else pw) PNone"
  have 2: "(case (if use_vcap \<and> \<not> truthy (username ?cu) \<and> \<not> truthy (token_auth ?cu)
                then use_vcap_credentials e name ?cu else Inr ?cu) of
            Inl ex \<Rightarrow> Inl ex
          | Inr c2 \<Rightarrow> check_credentials c2) = ?msg"
    using init_tail_fails[of ?cu use_vcap e name] assms by simp
  show "GlpiService_init e url_apirest tok path (PStr ''YOUR SERVICE USERNAME'') pw PNone use_vcap name = ?msg"
    unfolding GlpiService_init_def Let_def using 2 by (simp add: u)
  have p: "set_username_and_password (?c0 un (PStr ''YOUR SERVICE PASSWORD'') PNone)
              un (PStr ''YOUR SERVICE PASSWORD'')
             = ?c0 (if un = PStr ''YOUR SERVICE USERNAME'' then PNone else un) PNone PNone"
    by (simp add: set_username_and_password_def)
  let ?cp = "?c0 (if un = PStr ''YOUR SERVICE USERNAME'' then PNone else un) PNone PNone"
  have 3: "(case (if use_vcap \<and> \<not> truthy (username ?cp) \<and> \<not> truthy (token_auth ?cp)
                then use_vcap_credentials e name ?cp else Inr ?cp) of
            Inl ex \<Rightarrow> Inl ex
          | Inr c2 \<Rightarrow> check_credentials c2) = ?msg"
    using init_tail_fails[of ?cp use_vcap e name] assms by simp
  show "GlpiService_init e url_apirest tok path un (PStr ''YOUR SERVICE PASSWORD'') PNone use_vcap name = ?msg"
    unfolding GlpiService_init_def Let_def using 3 by (simp add: p)
qed

theorem placeholder_credentials_rejected_witness:
  "no_vcap_credentials demo_env None \<and>
   GlpiService_init demo_env (PStr ''http://glpi'') (PStr ''app-key'') ''/Ticket''
       PNone PNone (PStr ''YOUR AUTH TOKEN'') True None =
     Inl (GlpiException
           ''You must specify your username and password, or token_authservice credentials '') \<and>
   GlpiService_init demo_env (PStr ''http://glpi'') (PStr ''app-key'') ''/Ticket''
       (PStr ''YOUR SERVICE USERNAME'') PNone PNone True None =
     Inl (GlpiException
           ''You must specify your username and password, or token_authservice credentials '') \<and>
   GlpiService_init demo_env (PStr ''http://glpi'') (PStr ''app-key'') ''/Ticket''
       PNone (PStr ''YOUR SERVICE PASSWORD'') PNone True None =
     Inl (GlpiException
           ''You must specify your username and password, or token_authservice credentials '')"
proof -
  have v: "no_vcap_credentials demo_env None"
    by (simp add: no_vcap_credentials_def load_from_vcap_services_def demo_env_def)
  then have h: "\<not> True \<or> no_vcap_credentials demo_env None" by simp
  show ?thesis
    using v placeholder_credentials_rejected [OF h, where tok = "PStr ''app-key''"
        and url_apirest = "PStr ''http://glpi''" and path = "''/Ticket''" and pw = PNone and un = PNone]
    by simp
qed

text \<open>
  Claim C10 as stated fails: with \<^verbatim>\<open>use_vcap_services=True\<close> and a
  \<^verbatim>\<open>VCAP_SERVICES\<close> that is no JSON, the placeholder is still the only
  credential, and the constructor ends with the \<^verbatim>\<open>ValueError\<close> of
  \<^verbatim>\<open>json.loads\<close> (line 29), not with a \<^verbatim>\<open>GlpiException\<close>.
\<close>

theorem placeholder_with_garbled_binding_counterexample:
  "vcap_services garbled_env = Some None \<and>
   GlpiService_init garbled_env (PStr ''http://glpi'') (PStr ''app-key'') ''/Ticket''
       PNone PNone (PStr ''YOUR AUTH TOKEN'') True (Some ''glpi'') = Inl ValueError \<and>
   GlpiService_init garbled_env (PStr ''http://glpi'') (PStr ''app-key'') ''/Ticket''
       (PStr ''YOUR SERVICE USERNAME'') PNone PNone True (Some ''glpi'') = Inl ValueError \<and>
   GlpiService_init garbled_env (PStr ''http://glpi'') (PStr ''app-key'') ''/Ticket''
       PNone (PStr ''YOUR SERVICE PASSWORD'') PNone True (Some ''glpi'') = Inl ValueError"
proof -
  have v: "vcap_services garbled_env = Some None"
    by (simp add: garbled_env_def)
  then have l: "load_from_vcap_services garbled_env (Some ''glpi'') = Inl ValueError"
    by (simp add: load_from_vcap_services_def)
  then have u: "use_vcap_credentials garbled_env (Some ''glpi'') c = Inl ValueError" for c
    by (simp add: use_vcap_credentials_def)
  show ?thesis
    by (simp add: v GlpiService_init_def set_token_auth_def set_username_and_password_def u)
qed

section \<open>Unknown item names\<close>

lemma init_item_unknown:
  "map_of (item_map g) name = None \<Longrightarrow>
     init_item e (g, log) name = (Inl (KeyError (PStr name)), (g, log))"
  by (simp add: init_item_def)

text \<open>
  Claim C2, as amended. When \<^verbatim>\<open>item_name\<close> is no key of the item map,
  \<^verbatim>\<open>get_all\<close>, \<^verbatim>\<open>get\<close> and \<^verbatim>\<open>create\<close> of the router raise \<^verbatim>\<open>KeyError\<close> and
  leave the router and the log as they were: the lookup in \<^verbatim>\<open>init_item\<close> is
  outside every \<^verbatim>\<open>try\<close>. So does \<^verbatim>\<open>search\<close> when its argument has a
  \<^verbatim>\<open>criteria\<close> key; without that key \<^verbatim>\<open>search\<close> never looks the name up and
  returns its \<^verbatim>\<open>message_info\<close> or \<^verbatim>\<open>message_error\<close> object.
\<close>

theorem unknown_item_name_raises:
  assumes "map_of (item_map g) name = None"
  shows "GLPI_get_all e (g, log) name = (Inl (KeyError (PStr name)), (g, log)) \<and>
         GLPI_get e (g, log) name item_id = (Inl (KeyError (PStr name)), (g, log)) \<and>
         GLPI_create e (g, log) name item_data = (Inl (KeyError (PStr name)), (g, log)) \<and>
         (map_of kvs ''criteria'' \<noteq> None \<longrightarrow>
            search e (g, log) name (PDict kvs) = (Inl (KeyError (PStr name)), (g, log))) \<and>
         (map_of kvs ''criteria'' = None \<longrightarrow>
            search e (g, log) name (PDict kvs) =
              (Inr (if map_of kvs ''metacriteria'' \<noteq> None
                    then PDict [(''message_info'', PStr ''Not implemented yet'')]
                    else PDict [(''message_error'', PStr ''Unable to find a valid criteria.'')]),
               (g, log)))"
  using assms
  by (auto simp add: GLPI_get_all_def GLPI_get_def GLPI_create_def search_def
        search_metacriteria_def init_item_unknown split: option.split)

theorem unknown_item_name_raises_witness:
  "map_of (item_map demo_router) ''computer'' = None \<and>
   GLPI_get_all demo_env (demo_router, []) ''computer''
     = (Inl (KeyError (PStr ''computer'')), (demo_router, [])) \<and>
   GLPI_get demo_env (demo_router, []) ''computer'' (AInt 7)
     = (Inl (KeyError (PStr ''computer'')), (demo_router, [])) \<and>
   GLPI_create demo_env (demo_router, []) ''computer'' (Some [(''name'', AStr ''pc'')])
     = (Inl (KeyError (PStr ''computer'')), (demo_router, [])) \<and>
   search demo_env (demo_router, []) ''computer''
       (PDict [(''criteria'', PList [PDict [(''field'', PStr ''name''), (''value'', PStr ''pc'')]])])
     = (Inl (KeyError (PStr ''computer'')), (demo_router, []))"
proof -
  have h: "map_of (item_map demo_router) ''computer'' = None"
    by (simp add: demo_router_def GLPI_init_def)
  show ?thesis
    using h unknown_item_name_raises [OF h, where e = demo_env and log = "[]" and item_id = "AInt 7"
        and item_data = "Some [(''name'', AStr ''pc'')]"
        and kvs = "[(''criteria'', PList [PDict [(''field'', PStr ''name''), (''value'', PStr ''pc'')]])]"]
    by simp
qed

text \<open>
  Claim C2 as stated fails: \<^verbatim>\<open>computer\<close> is not in the built-in item map, and
  \<^verbatim>\<open>get_all\<close> raises \<^verbatim>\<open>KeyError\<close> instead of returning a \<^verbatim>\<open>message_error\<close> object.
\<close>

theorem unknown_item_name_counterexample:
  "map_of (item_map demo_router) ''computer'' = None \<and>
   fst (GLPI_get_all demo_env (demo_router, []) ''computer'') = Inl (KeyError (PStr ''computer''))"
  by (simp add: demo_router_def GLPI_init_def GLPI_get_all_def init_item_def)

section \<open>Switching the item of a router\<close>

lemma set_session_token_auth:
  "set_session_token e (c, log) = (r, (c', log')) \<Longrightarrow>
     \<exists>new. log' = log @ new \<and> (\<forall>x\<in>set new. req_auth x \<noteq> NoAuth)"
  by (auto simp: set_session_token_def Let_def split: sum.splits option.splits if_splits)










section \<open>Searching by criteria\<close>

lemma is_substring_sublist: "is_substring xs ys = sublist xs ys"
  by (induction ys) (simp_all add: sublist_Cons_right)

lemma field_text_getitem:
  "field_text d f = Some s \<Longrightarrow> py_getitem d (PStr f) = Inr (PStr s)"
  by (auto simp: field_text_def split: pyval.splits option.splits)

lemma criterion_holds_ok:
  assumes "criterion_of c = Some (f, v)" and "field_text d f = Some s"
  shows "criterion_holds c d = Inr (sublist (lower v) (lower s))"
proof -
  from assms(1) have "field_text c ''field'' = Some f" "field_text c ''value'' = Some v"
    by (auto simp: criterion_of_def split: option.splits)
  then have "py_getitem c (PStr ''field'') = Inr (PStr f)" "py_getitem c (PStr ''value'') = Inr (PStr v)"
    by (simp_all add: field_text_getitem)
  with field_text_getitem[OF assms(2)] show ?thesis
    by (simp add: criterion_holds_def is_substring_sublist)
qed

lemma find_loop_ok:
  assumes "map criterion_of cs = map Some fvs"
    and "\<forall>fv\<in>set fvs. field_text d (fst fv) \<noteq> None"
  shows "find_loop d cs b = Inr (b \<or> (\<exists>fv\<in>set fvs. matches d fv))"
  using assms
proof (induction cs arbitrary: fvs b)
  case Nil
  then show ?case by simp
next
  case (Cons c cs)
  then obtain fv rest where fvs: "fvs = fv # rest" "criterion_of c = Some fv"
    "map criterion_of cs = map Some rest" by (cases fvs) auto
  obtain f v where fv: "fv = (f, v)" by (cases fv)
  from Cons.prems(2) fvs fv obtain s where s: "field_text d f = Some s" by auto
  have holds: "criterion_holds c d = Inr (matches d fv)"
    using criterion_holds_ok[of c f v d s] fvs fv s by (simp add: matches_def)
  have "find_loop d cs (if matches d fv then True else b) =
          Inr ((if matches d fv then True else b) \<or> (\<exists>fv\<in>set rest. matches d fv))"
    using Cons.IH[OF fvs(3)] Cons.prems(2) fvs by simp
  with holds fvs show ?case by auto
qed

lemma result_loop_ok:
  assumes "map criterion_of cs = map Some fvs"
    and "\<forall>d\<in>set ds. \<forall>fv\<in>set fvs. field_text d (fst fv) \<noteq> None"
  shows "result_loop ds (PList cs) acc = Inr (acc @ filter (\<lambda>d. \<exists>fv\<in>set fvs. matches d fv) ds)"
  using assms(2)
proof (induction ds arbitrary: acc)
  case Nil
  then show ?case by simp
next
  case (Cons d ds)
  have "find_loop d cs False = Inr (\<exists>fv\<in>set fvs. matches d fv)"
    using find_loop_ok[OF assms(1), of d False] Cons.prems by simp
  with Cons show ?case by simp
qed

text \<open>
  Claim C7, as amended. When \<^verbatim>\<open>get_all\<close> fetched a list of items, the criteria
  are field/value pairs of strings, and every fetched item holds a string in
  every field the criteria name, \<^verbatim>\<open>search\<close> returns exactly the fetched items
  that match at least one criterion (the value occurs in the item's text for
  the field, case ignored), in the order they were fetched.
\<close>

theorem search_keeps_matching_items:
  assumes "map_of kvs ''criteria'' = Some (PList crit)"
    and "GLPI_get_all e st name = (Inr (PList ds), st')"
    and "map criterion_of crit = map Some fvs"
    and "\<forall>d\<in>set ds. \<forall>fv\<in>set fvs. field_text d (fst fv) \<noteq> None"
  shows "search e st name (PDict kvs) =
           (Inr (PList (filter (\<lambda>d. \<exists>fv\<in>set fvs. matches d fv) ds)), st')"
  using assms(1,2)
  by (simp add: search_def search_criteria_def result_loop_ok[OF assms(3,4)])


lemma demo_get_all:
  "GLPI_get_all demo_env (bound_router, []) ''ticket'' =
     (Inr demo_tickets,
      (bound_router, [api_call demo_env demo_client ''GET'' ''http://glpi/Ticket'' default_args]))"
proof -
  have h1: "url demo_client = PStr ''http://glpi''" by (simp add: demo_client_def)
  have h2: "ensure_session demo_env (demo_client, []) = (Inr True, (demo_client, []))"
    by (simp add: ensure_session_def demo_client_def)
  have send: "http_send demo_env [] (api_call demo_env demo_client ''GET'' (''http://glpi'' @ ''/Ticket'') default_args)
     = Inr \<lparr>status_code = 200, json_body = Some demo_tickets\<rparr>"
    by (simp add: demo_env_def demo_server_def api_call_def)
  have aj: "\<not> arg_accept_json default_args" by (simp add: default_args_def)
  have u: "uri demo_client = ''/Ticket''" by (simp add: demo_client_def)
  have ga: "get_all demo_env (demo_client, []) =
     (Inr demo_tickets, (demo_client, [api_call demo_env demo_client ''GET'' ''http://glpi/Ticket'' default_args]))"
    unfolding get_all_def fst_conv u request_sent[OF h1 h2] send
    using aj by (simp add: handle_response_def)
  have ii: "init_item demo_env (bound_router, []) ''ticket'' = (Inr True, (bound_router, []))"
    by (simp add: init_item_def bound_router_def demo_router_def GLPI_init_def)
  have ar: "api_rest bound_router = Some demo_client" by (simp add: bound_router_def)
  have same: "bound_router\<lparr>api_rest := Some demo_client\<rparr> = bound_router" by (simp add: bound_router_def)
  show ?thesis
    by (simp add: GLPI_get_all_def ii with_client_def ar ga same)
qed

theorem search_keeps_matching_items_witness:
  "search demo_env (bound_router, []) ''ticket''
     (PDict [(''criteria'', PList [PDict [(''field'', PStr ''name''), (''value'', PStr ''printer'')],
                                   PDict [(''value'', PStr ''TONER''), (''field'', PStr ''name'')]])]) =
     (Inr (PList [PDict [(''id'', PInt 1), (''name'', PStr ''Printer is broken'')],
                  PDict [(''id'', PInt 3), (''name'', PStr ''New PRINTER toner'')]]),
      (bound_router, [api_call demo_env demo_client ''GET'' ''http://glpi/Ticket'' default_args]))"
proof -
  let ?crit = "[PDict [(''field'', PStr ''name''), (''value'', PStr ''printer'')],
               PDict [(''value'', PStr ''TONER''), (''field'', PStr ''name'')]]"
  let ?fvs = "[(''name'', ''printer''), (''name'', ''TONER'')]"
  let ?ds = "[PDict [(''id'', PInt 1), (''name'', PStr ''Printer is broken'')],
            PDict [(''id'', PInt 2), (''name'', PStr ''VPN access'')],
            PDict [(''id'', PInt 3), (''name'', PStr ''New PRINTER toner'')]]"
  have h1: "map_of [(''criteria'', PList ?crit)] ''criteria'' = Some (PList ?crit)" by simp
  have h2: "GLPI_get_all demo_env (bound_router, []) ''ticket'' =
     (Inr (PList ?ds),
      (bound_router, [api_call demo_env demo_client ''GET'' ''http://glpi/Ticket'' default_args]))"
    using demo_get_all by (simp add: demo_tickets_def)
  have h3: "map criterion_of ?crit = map Some ?fvs"
    by (simp add: criterion_of_def field_text_def)
  have h4: "\<forall>d\<in>set ?ds. \<forall>fv\<in>set ?fvs. field_text d (fst fv) \<noteq> None"
    by (simp add: field_text_def)
  have l: "lower ''printer'' = ''printer''" "lower ''TONER'' = ''toner''"
    "lower ''Printer is broken'' = ''printer is broken''"
    "lower ''VPN access'' = ''vpn access''"
    "lower ''New PRINTER toner'' = ''new printer toner''"
    by (simp_all add: lower_def lower_char_def)
  have f: "filter (\<lambda>d. \<exists>fv\<in>set ?fvs. matches d fv) ?ds =
             [PDict [(''id'', PInt 1), (''name'', PStr ''Printer is broken'')],
              PDict [(''id'', PInt 3), (''name'', PStr ''New PRINTER toner'')]]"
    by (simp add: matches_def field_text_def l is_substring_sublist[symmetric])
  show ?thesis
    using search_keeps_matching_items [OF h1 h2 h3 h4] by (simp only: f)
qed


text \<open>
  Claim C7 as stated fails on an item without the field: no ticket of the demo
  server has a \<^verbatim>\<open>status\<close>, and \<^verbatim>\<open>search\<close> raises \<^verbatim>\<open>KeyError\<close> instead of
  returning the empty list.
\<close>

theorem search_missing_field_counterexample:
  "fst (GLPI_get_all demo_env (bound_router, []) ''ticket'') = Inr demo_tickets \<and>
   fst (search demo_env (bound_router, []) ''ticket''
          (PDict [(''criteria'', PList [PDict [(''field'', PStr ''status''), (''value'', PStr ''new'')]])]))
     = Inl (KeyError (PStr ''status''))"
proof -
  have l: "lower ''new'' = ''new''" by (simp add: lower_def lower_char_def)
  show ?thesis
    by (simp add: search_def demo_get_all demo_tickets_def search_criteria_def
          criterion_holds_def l)
qed

end
